theory Spec2Isabelle
  imports Main "HOL-Library.Sublist"
begin

section \<open>The JavaScript values the gateway handles\<close>

text \<open>
  The gateway of \<^verbatim>\<open>src/index.ts\<close> passes the backend's JSON through untouched, so the
  values it sees are the JSON values. A number is an integer, and it stands for a
  JavaScript number only when it is a safe integer (of magnitude below \<open>2 ^ 53\<close>, see
  \<open>safe_integer\<close>): the gateway computes with no number, it only prints them, and
  beyond that range JavaScript rounds and prints differently. An object is the list of
  its own properties in enumeration order. A JavaScript value that may be \<^verbatim>\<open>undefined\<close> is a \<open>json option\<close>,
  with \<open>None\<close> for \<^verbatim>\<open>undefined\<close>.
\<close>

datatype json =
    JNull
  | JBool bool
  | JNum int
  | JStr string
  | JArr "json list"
  | JObj "(string \<times> json) list"

text \<open>A thrown value: an \<^verbatim>\<open>Error\<close> object with its \<^verbatim>\<open>name\<close> and \<^verbatim>\<open>message\<close>.\<close>

datatype js_error = JsError (err_name: string) (err_message: string)

text \<open>\<^verbatim>\<open>Error.prototype.toString\<close>, which a template literal \<^verbatim>\<open>${error}\<close> calls.\<close>

definition error_to_string :: "js_error \<Rightarrow> string" where
  "error_to_string e =
     (if err_name e = [] then err_message e
      else if err_message e = [] then err_name e
      else err_name e @ '': '' @ err_message e)"

text \<open>Truthiness (\<^verbatim>\<open>ToBoolean\<close>), as used by \<^verbatim>\<open>||\<close>, \<^verbatim>\<open>!\<close> and \<^verbatim>\<open>? :\<close>.\<close>

fun truthy :: "json \<Rightarrow> bool" where
  "truthy JNull = False"
| "truthy (JBool b) = b"
| "truthy (JNum n) = (n \<noteq> 0)"
| "truthy (JStr s) = (s \<noteq> [])"
| "truthy (JArr xs) = True"
| "truthy (JObj kvs) = True"

text \<open>\<^verbatim>\<open>a || b\<close> where \<^verbatim>\<open>a\<close> may be \<^verbatim>\<open>undefined\<close>.\<close>

fun js_or :: "json option \<Rightarrow> json \<Rightarrow> json" where
  "js_or None b = b"
| "js_or (Some a) b = (if truthy a then a else b)"

text \<open>
  Reading one of the properties \<^verbatim>\<open>posts\<close>, \<^verbatim>\<open>replyId\<close>, \<^verbatim>\<open>commentId\<close> of a response body
  (\<^verbatim>\<open>response.data.posts\<close>): on \<^verbatim>\<open>null\<close> the read throws a \<^verbatim>\<open>TypeError\<close>; on an object it
  is the property's value or \<^verbatim>\<open>undefined\<close>; a string, number, boolean or array has no
  property of these names.
\<close>

fun get_prop :: "json \<Rightarrow> string \<Rightarrow> js_error + json option" where
  "get_prop JNull k =
     Inl (JsError ''TypeError''
            (''Cannot read properties of null (reading '' @ [CHR 0x27] @ k @ [CHR 0x27] @ '')''))"
| "get_prop (JObj kvs) k = Inr (map_of kvs k)"
| "get_prop v k = Inr None"

subsection \<open>Printing numbers\<close>

text \<open>
  The integers that a JavaScript number holds exactly, from \<^verbatim>\<open>-Number.MAX_SAFE_INTEGER\<close>
  to \<^verbatim>\<open>Number.MAX_SAFE_INTEGER\<close>.
\<close>

definition safe_integer :: "int \<Rightarrow> bool" where
  "safe_integer i = (- 9007199254740991 \<le> i \<and> i \<le> 9007199254740991)"

text \<open>
  \<^verbatim>\<open>Number::toString\<close> on a safe integer: the decimal digits, most significant first,
  behind a minus sign when it is negative. On an integer that is not safe the value below
  is not what JavaScript prints (from \<open>10 ^ 21\<close> on it prints an exponent), so a statement
  about printed numbers is made for safe integers only.
\<close>

definition digit_char :: "nat \<Rightarrow> char" where
  "digit_char d = char_of (of_char CHR ''0'' + d)"

fun decimal :: "nat \<Rightarrow> string" where
  "decimal n = (if 10 \<le> n then decimal (n div 10) @ [digit_char (n mod 10)] else [digit_char n])"

declare decimal.simps [simp del]

definition number_to_string :: "int \<Rightarrow> string" where
  "number_to_string i = (if 0 \<le> i then decimal (nat i) else CHR ''-'' # decimal (nat (- i)))"

fun join :: "string \<Rightarrow> string list \<Rightarrow> string" where
  "join sep [] = []"
| "join sep [x] = x"
| "join sep (x # y # ys) = x @ sep @ join sep (y # ys)"

text \<open>
  \<^verbatim>\<open>ToString\<close> of a value, which a template literal \<^verbatim>\<open>${value}\<close> applies: an array joins
  its elements with commas (a \<^verbatim>\<open>null\<close> element prints as nothing), an object prints as
  \<^verbatim>\<open>[object Object]\<close>.
\<close>

fun to_string :: "json \<Rightarrow> string" where
  "to_string JNull = ''null''"
| "to_string (JBool b) = (if b then ''true'' else ''false'')"
| "to_string (JNum n) = number_to_string n"
| "to_string (JStr s) = s"
| "to_string (JArr xs) =
     join '','' (map (\<lambda>x. if x = JNull then [] else to_string x) xs)"
| "to_string (JObj kvs) = ''[object Object]''"

subsection \<open>\<^verbatim>\<open>JSON.stringify(value, null, space)\<close>\<close>

definition hex_digit :: "nat \<Rightarrow> char" where
  "hex_digit d = (if d < 10 then digit_char d else char_of (of_char CHR ''a'' + (d - 10)))"

text \<open>\<^verbatim>\<open>QuoteJSONString\<close>: the escapes of one character.\<close>

definition quote_char :: "char \<Rightarrow> string" where
  "quote_char c =
     (if c = CHR 0x22 then [CHR 0x5C, CHR 0x22]
      else if c = CHR 0x5C then [CHR 0x5C, CHR 0x5C]
      else if c = CHR 0x08 then [CHR 0x5C, CHR ''b'']
      else if c = CHR 0x09 then [CHR 0x5C, CHR ''t'']
      else if c = CHR 0x0A then [CHR 0x5C, CHR ''n'']
      else if c = CHR 0x0C then [CHR 0x5C, CHR ''f'']
      else if c = CHR 0x0D then [CHR 0x5C, CHR ''r'']
      else if of_char c < (32::nat)
        then [CHR 0x5C, CHR ''u'', CHR ''0'', CHR ''0'',
              hex_digit (of_char c div 16), hex_digit (of_char c mod 16)]
      else [c])"

definition quote :: "string \<Rightarrow> string" where
  "quote s = [CHR 0x22] @ concat (map quote_char s) @ [CHR 0x22]"

text \<open>
  \<^verbatim>\<open>SerializeJSONProperty\<close> with the gap (the indentation unit) and the current
  indentation. With an empty gap nothing is broken over lines.
\<close>

fun serialize :: "string \<Rightarrow> string \<Rightarrow> json \<Rightarrow> string" where
  "serialize gap ind JNull = ''null''"
| "serialize gap ind (JBool b) = (if b then ''true'' else ''false'')"
| "serialize gap ind (JNum n) = number_to_string n"
| "serialize gap ind (JStr s) = quote s"
| "serialize gap ind (JArr xs) =
     (if xs = [] then ''[]''
      else if gap = [] then ''['' @ join '','' (map (serialize gap (ind @ gap)) xs) @ '']''
      else ''['' @ [CHR 0x0A] @ (ind @ gap)
           @ join ('','' @ [CHR 0x0A] @ (ind @ gap)) (map (serialize gap (ind @ gap)) xs)
           @ [CHR 0x0A] @ ind @ '']'')"
| "serialize gap ind (JObj kvs) =
     (if kvs = [] then ''{}''
      else if gap = []
        then ''{'' @ join '','' (map (\<lambda>kv. quote (fst kv) @ '':''
                                  @ serialize gap (ind @ gap) (snd kv)) kvs) @ ''}''
      else ''{'' @ [CHR 0x0A] @ (ind @ gap)
           @ join ('','' @ [CHR 0x0A] @ (ind @ gap))
               (map (\<lambda>kv. quote (fst kv) @ '': '' @ serialize gap (ind @ gap) (snd kv)) kvs)
           @ [CHR 0x0A] @ ind @ ''}'')"

definition JSON_stringify :: "json \<Rightarrow> nat \<Rightarrow> string" where
  "JSON_stringify v space = serialize (replicate (min 10 space) CHR '' '') [] v"

section \<open>The HTTP client\<close>

datatype http_method = GET | POST

text \<open>
  An outbound request as axios sends it: the instance's base URL and headers, the path, the
  query parameters (\<^verbatim>\<open>params\<close>) and the JSON body (\<^verbatim>\<open>data\<close>; \<open>None\<close> for a request
  without one).
\<close>

record request =
  req_method :: http_method
  req_baseURL :: string
  req_url :: string
  req_headers :: "(string \<times> string) list"
  req_params :: "(string \<times> json) list"
  req_data :: "json option"

text \<open>
  What comes back for a request: an HTTP response with its status and parsed body, or no
  response at all (connection refused, timeout), which axios throws as an error.
\<close>

datatype outcome = Responded nat json | NoResponse js_error

type_synonym backend = "request \<Rightarrow> outcome"

record response =
  resp_status :: nat
  resp_data :: json

text \<open>
  The effects of the program: the requests that went out, in order, and what was written
  with \<^verbatim>\<open>console.error\<close>.
\<close>

record world =
  sent :: "request list"
  console :: "(string \<times> js_error) list"

record axios_instance =
  inst_baseURL :: string
  inst_headers :: "(string \<times> string) list"

definition axios_create :: "string \<Rightarrow> (string \<times> string) list \<Rightarrow> axios_instance" where
  "axios_create url hs = \<lparr>inst_baseURL = url, inst_headers = hs\<rparr>"

text \<open>
  An object literal such as \<^verbatim>\<open>{ username, limit }\<close> whose values may be \<^verbatim>\<open>undefined\<close>:
  axios leaves an undefined parameter out of the query, and \<^verbatim>\<open>JSON.stringify\<close> leaves an
  undefined property out of the body.
\<close>

fun defined_props :: "(string \<times> json option) list \<Rightarrow> (string \<times> json) list" where
  "defined_props [] = []"
| "defined_props ((k, None) # ps) = defined_props ps"
| "defined_props ((k, Some v) # ps) = (k, v) # defined_props ps"

text \<open>
  axios settles the promise by the status (the default \<^verbatim>\<open>validateStatus\<close>): a status in
  200..299 resolves with the response, any other rejects with an \<^verbatim>\<open>AxiosError\<close>.
\<close>

definition settle :: "outcome \<Rightarrow> js_error + response" where
  "settle out =
     (case out of
        NoResponse e \<Rightarrow> Inl e
      | Responded status d \<Rightarrow>
          if 200 \<le> status \<and> status < 300 then Inr \<lparr>resp_status = status, resp_data = d\<rparr>
          else Inl (JsError ''AxiosError''
                      (''Request failed with status code '' @ decimal status)))"

definition axios_request ::
  "axios_instance \<Rightarrow> backend \<Rightarrow> request \<Rightarrow> world \<Rightarrow> (js_error + response) \<times> world" where
  "axios_request inst be req w = (settle (be req), w\<lparr>sent := sent w @ [req]\<rparr>)"

definition axios_get ::
  "axios_instance \<Rightarrow> backend \<Rightarrow> string \<Rightarrow> (string \<times> json option) list \<Rightarrow> world
     \<Rightarrow> (js_error + response) \<times> world" where
  "axios_get inst be url params w =
     axios_request inst be
       \<lparr>req_method = GET, req_baseURL = inst_baseURL inst, req_url = url,
        req_headers = inst_headers inst, req_params = defined_props params,
        req_data = None\<rparr> w"

definition axios_post ::
  "axios_instance \<Rightarrow> backend \<Rightarrow> string \<Rightarrow> (string \<times> json option) list \<Rightarrow> world
     \<Rightarrow> (js_error + response) \<times> world" where
  "axios_post inst be url body w =
     axios_request inst be
       \<lparr>req_method = POST, req_baseURL = inst_baseURL inst, req_url = url,
        req_headers = inst_headers inst, req_params = [],
        req_data = Some (JObj (defined_props body))\<rparr> w"

section \<open>\<^verbatim>\<open>RedditAPIClient\<close>\<close>

record RedditAPIClient =
  accessToken :: string
  apiBaseUrl :: string
  axiosInstance :: axios_instance

definition new_RedditAPIClient :: "string \<Rightarrow> string \<Rightarrow> RedditAPIClient" where
  "new_RedditAPIClient token url =
     \<lparr>accessToken = token, apiBaseUrl = url,
      axiosInstance = axios_create url
        [(''Authorization'', ''Bearer '' @ token), (''Content-Type'', ''application/json'')]\<rparr>"

text \<open>A parameter with a default value: \<^verbatim>\<open>limit: number = 25\<close>.\<close>

definition default_param :: "'a option \<Rightarrow> 'a \<Rightarrow> 'a" where
  "default_param x d = (case x of None \<Rightarrow> d | Some v \<Rightarrow> v)"

text \<open>\<^verbatim>\<open>console.error(label, error)\<close>.\<close>

definition console_error :: "string \<Rightarrow> js_error \<Rightarrow> world \<Rightarrow> world" where
  "console_error label e w = w\<lparr>console := console w @ [(label, e)]\<rparr>"

text \<open>
  Every method is an \<^verbatim>\<open>async\<close> function: its promise rejects with an error (\<open>Inl\<close>) or
  resolves with a value (\<open>Inr\<close>).
\<close>

definition getUserPosts ::
  "RedditAPIClient \<Rightarrow> backend \<Rightarrow> string option \<Rightarrow> int option \<Rightarrow> world
     \<Rightarrow> (js_error + json) \<times> world" where
  "getUserPosts c be username limit w =
     (case axios_get (axiosInstance c) be ''/api/reddit/mcp/user-posts''
             [(''username'', map_option JStr username),
              (''limit'', Some (JNum (default_param limit 25)))] w of
        (Inl e, w') \<Rightarrow> (Inl e, w')
      | (Inr r, w') \<Rightarrow> (Inr (resp_data r), w'))"

definition getUserComments ::
  "RedditAPIClient \<Rightarrow> backend \<Rightarrow> string option \<Rightarrow> int option \<Rightarrow> world
     \<Rightarrow> (js_error + json) \<times> world" where
  "getUserComments c be username limit w =
     (case axios_get (axiosInstance c) be ''/api/reddit/mcp/user-comments''
             [(''username'', map_option JStr username),
              (''limit'', Some (JNum (default_param limit 25)))] w of
        (Inl e, w') \<Rightarrow> (Inl e, w')
      | (Inr r, w') \<Rightarrow> (Inr (resp_data r), w'))"

definition getPostComments ::
  "RedditAPIClient \<Rightarrow> backend \<Rightarrow> string \<Rightarrow> string option \<Rightarrow> world
     \<Rightarrow> (js_error + json) \<times> world" where
  "getPostComments c be postId subreddit w =
     (case axios_get (axiosInstance c) be ''/api/reddit/mcp/post-comments''
             [(''postId'', Some (JStr postId)),
              (''subreddit'', map_option JStr subreddit)] w of
        (Inl e, w') \<Rightarrow> (Inl e, w')
      | (Inr r, w') \<Rightarrow> (Inr (resp_data r), w'))"

definition hideComment ::
  "RedditAPIClient \<Rightarrow> backend \<Rightarrow> string \<Rightarrow> world \<Rightarrow> (js_error + bool) \<times> world" where
  "hideComment c be commentId w =
     (case axios_post (axiosInstance c) be ''/api/reddit/mcp/hide-comment''
             [(''commentId'', Some (JStr commentId))] w of
        (Inr r, w') \<Rightarrow> (Inr True, w')
      | (Inl e, w') \<Rightarrow> (Inr False, console_error ''Failed to hide comment:'' e w'))"

text \<open>
  \<^verbatim>\<open>return response.data.replyId || null\<close> sits inside the \<^verbatim>\<open>try\<close>, so an error thrown by the
  property read is caught like one thrown by the request.
\<close>

definition replyToComment ::
  "RedditAPIClient \<Rightarrow> backend \<Rightarrow> string \<Rightarrow> string \<Rightarrow> world \<Rightarrow> (js_error + json) \<times> world" where
  "replyToComment c be commentId text w =
     (case axios_post (axiosInstance c) be ''/api/reddit/mcp/reply-comment''
             [(''commentId'', Some (JStr commentId)), (''text'', Some (JStr text))] w of
        (Inr r, w') \<Rightarrow>
          (case get_prop (resp_data r) ''replyId'' of
             Inr v \<Rightarrow> (Inr (js_or v JNull), w')
           | Inl e \<Rightarrow> (Inr JNull, console_error ''Failed to reply to comment:'' e w'))
      | (Inl e, w') \<Rightarrow> (Inr JNull, console_error ''Failed to reply to comment:'' e w'))"

definition postComment ::
  "RedditAPIClient \<Rightarrow> backend \<Rightarrow> string \<Rightarrow> string \<Rightarrow> world \<Rightarrow> (js_error + json) \<times> world" where
  "postComment c be postId text w =
     (case axios_post (axiosInstance c) be ''/api/reddit/mcp/post-comment''
             [(''postId'', Some (JStr postId)), (''text'', Some (JStr text))] w of
        (Inr r, w') \<Rightarrow>
          (case get_prop (resp_data r) ''commentId'' of
             Inr v \<Rightarrow> (Inr (js_or v JNull), w')
           | Inl e \<Rightarrow> (Inr JNull, console_error ''Failed to post comment:'' e w'))
      | (Inl e, w') \<Rightarrow> (Inr JNull, console_error ''Failed to post comment:'' e w'))"

text \<open>
  The three listing methods catch, log and throw the error again;
  \<^verbatim>\<open>response.data.posts || []\<close> is inside the \<^verbatim>\<open>try\<close> as well.
\<close>

definition getHotPosts ::
  "RedditAPIClient \<Rightarrow> backend \<Rightarrow> string \<Rightarrow> int option \<Rightarrow> world \<Rightarrow> (js_error + json) \<times> world" where
  "getHotPosts c be subreddit limit w =
     (case axios_post (axiosInstance c) be ''/api/reddit/mcp/hot-posts''
             [(''subreddit'', Some (JStr subreddit)),
              (''limit'', Some (JNum (default_param limit 25)))] w of
        (Inr r, w') \<Rightarrow>
          (case get_prop (resp_data r) ''posts'' of
             Inr v \<Rightarrow> (Inr (js_or v (JArr [])), w')
           | Inl e \<Rightarrow> (Inl e, console_error ''Failed to get hot posts:'' e w'))
      | (Inl e, w') \<Rightarrow> (Inl e, console_error ''Failed to get hot posts:'' e w'))"

definition getNewPosts ::
  "RedditAPIClient \<Rightarrow> backend \<Rightarrow> string \<Rightarrow> int option \<Rightarrow> world \<Rightarrow> (js_error + json) \<times> world" where
  "getNewPosts c be subreddit limit w =
     (case axios_post (axiosInstance c) be ''/api/reddit/mcp/new-posts''
             [(''subreddit'', Some (JStr subreddit)),
              (''limit'', Some (JNum (default_param limit 25)))] w of
        (Inr r, w') \<Rightarrow>
          (case get_prop (resp_data r) ''posts'' of
             Inr v \<Rightarrow> (Inr (js_or v (JArr [])), w')
           | Inl e \<Rightarrow> (Inl e, console_error ''Failed to get new posts:'' e w'))
      | (Inl e, w') \<Rightarrow> (Inl e, console_error ''Failed to get new posts:'' e w'))"

definition getRisingPosts ::
  "RedditAPIClient \<Rightarrow> backend \<Rightarrow> string \<Rightarrow> int option \<Rightarrow> world \<Rightarrow> (js_error + json) \<times> world" where
  "getRisingPosts c be subreddit limit w =
     (case axios_post (axiosInstance c) be ''/api/reddit/mcp/rising-posts''
             [(''subreddit'', Some (JStr subreddit)),
              (''limit'', Some (JNum (default_param limit 25)))] w of
        (Inr r, w') \<Rightarrow>
          (case get_prop (resp_data r) ''posts'' of
             Inr v \<Rightarrow> (Inr (js_or v (JArr [])), w')
           | Inl e \<Rightarrow> (Inl e, console_error ''Failed to get rising posts:'' e w'))
      | (Inl e, w') \<Rightarrow> (Inl e, console_error ''Failed to get rising posts:'' e w'))"

section \<open>The tools\<close>

record content_block =
  block_type :: string
  block_text :: string

text \<open>The result of a tool; \<open>isError = None\<close> is a result without the \<^verbatim>\<open>isError\<close> key.\<close>

record tool_result =
  content :: "content_block list"
  isError :: "bool option"

subsection \<open>The handlers\<close>

text \<open>
  Each handler is the callback given to \<^verbatim>\<open>server.registerTool\<close>. Its whole body is one
  \<^verbatim>\<open>try\<close>/\<^verbatim>\<open>catch\<close>, so it always returns a result. The destructuring default
  \<^verbatim>\<open>limit = 25\<close> is the handler's own.
\<close>

definition get_user_posts ::
  "RedditAPIClient \<Rightarrow> backend \<Rightarrow> string option \<Rightarrow> int option \<Rightarrow> world \<Rightarrow> tool_result \<times> world" where
  "get_user_posts redditClient be username limit w =
     (case getUserPosts redditClient be username (Some (default_param limit 25)) w of
        (Inr posts, w') \<Rightarrow>
          (\<lparr>content = [\<lparr>block_type = ''text'', block_text = JSON_stringify posts 2\<rparr>],
            isError = None\<rparr>, w')
      | (Inl error, w') \<Rightarrow>
          (\<lparr>content = [\<lparr>block_type = ''text'',
                         block_text = ''Error fetching user posts: '' @ error_to_string error\<rparr>],
            isError = Some True\<rparr>, w'))"

definition get_user_comments ::
  "RedditAPIClient \<Rightarrow> backend \<Rightarrow> string option \<Rightarrow> int option \<Rightarrow> world \<Rightarrow> tool_result \<times> world" where
  "get_user_comments redditClient be username limit w =
     (case getUserComments redditClient be username (Some (default_param limit 25)) w of
        (Inr comments, w') \<Rightarrow>
          (\<lparr>content = [\<lparr>block_type = ''text'', block_text = JSON_stringify comments 2\<rparr>],
            isError = None\<rparr>, w')
      | (Inl error, w') \<Rightarrow>
          (\<lparr>content = [\<lparr>block_type = ''text'',
                         block_text = ''Error fetching user comments: '' @ error_to_string error\<rparr>],
            isError = Some True\<rparr>, w'))"

definition get_post_comments ::
  "RedditAPIClient \<Rightarrow> backend \<Rightarrow> string \<Rightarrow> string option \<Rightarrow> world \<Rightarrow> tool_result \<times> world" where
  "get_post_comments redditClient be postId subreddit w =
     (case getPostComments redditClient be postId subreddit w of
        (Inr comments, w') \<Rightarrow>
          (\<lparr>content = [\<lparr>block_type = ''text'', block_text = JSON_stringify comments 2\<rparr>],
            isError = None\<rparr>, w')
      | (Inl error, w') \<Rightarrow>
          (\<lparr>content = [\<lparr>block_type = ''text'',
                         block_text = ''Error fetching post comments: '' @ error_to_string error\<rparr>],
            isError = Some True\<rparr>, w'))"

definition hide_comment ::
  "RedditAPIClient \<Rightarrow> backend \<Rightarrow> string \<Rightarrow> world \<Rightarrow> tool_result \<times> world" where
  "hide_comment redditClient be commentId w =
     (case hideComment redditClient be commentId w of
        (Inr success, w') \<Rightarrow>
          (\<lparr>content = [\<lparr>block_type = ''text'',
                         block_text = (if success then ''Successfully hid comment '' @ commentId
                                       else ''Failed to hide comment '' @ commentId)\<rparr>],
            isError = Some (\<not> success)\<rparr>, w')
      | (Inl error, w') \<Rightarrow>
          (\<lparr>content = [\<lparr>block_type = ''text'',
                         block_text = ''Error hiding comment: '' @ error_to_string error\<rparr>],
            isError = Some True\<rparr>, w'))"

definition reply_to_comment ::
  "RedditAPIClient \<Rightarrow> backend \<Rightarrow> string \<Rightarrow> string \<Rightarrow> world \<Rightarrow> tool_result \<times> world" where
  "reply_to_comment redditClient be commentId text w =
     (case replyToComment redditClient be commentId text w of
        (Inr replyId, w') \<Rightarrow>
          (\<lparr>content = [\<lparr>block_type = ''text'',
                         block_text =
                           (if truthy replyId
                            then ''Successfully replied to comment '' @ commentId
                                 @ ''. Reply ID: '' @ to_string replyId
                            else ''Failed to reply to comment '' @ commentId)\<rparr>],
            isError = Some (\<not> truthy replyId)\<rparr>, w')
      | (Inl error, w') \<Rightarrow>
          (\<lparr>content = [\<lparr>block_type = ''text'',
                         block_text = ''Error replying to comment: '' @ error_to_string error\<rparr>],
            isError = Some True\<rparr>, w'))"

definition post_comment ::
  "RedditAPIClient \<Rightarrow> backend \<Rightarrow> string \<Rightarrow> string \<Rightarrow> world \<Rightarrow> tool_result \<times> world" where
  "post_comment redditClient be postId text w =
     (case postComment redditClient be postId text w of
        (Inr commentId, w') \<Rightarrow>
          (\<lparr>content = [\<lparr>block_type = ''text'',
                         block_text =
                           (if truthy commentId
                            then ''Successfully posted comment on post '' @ postId
                                 @ ''. Comment ID: '' @ to_string commentId
                            else ''Failed to post comment on post '' @ postId)\<rparr>],
            isError = Some (\<not> truthy commentId)\<rparr>, w')
      | (Inl error, w') \<Rightarrow>
          (\<lparr>content = [\<lparr>block_type = ''text'',
                         block_text = ''Error posting comment: '' @ error_to_string error\<rparr>],
            isError = Some True\<rparr>, w'))"

definition get_hot_posts ::
  "RedditAPIClient \<Rightarrow> backend \<Rightarrow> string \<Rightarrow> int option \<Rightarrow> world \<Rightarrow> tool_result \<times> world" where
  "get_hot_posts redditClient be subreddit limit w =
     (case getHotPosts redditClient be subreddit (Some (default_param limit 25)) w of
        (Inr posts, w') \<Rightarrow>
          (\<lparr>content = [\<lparr>block_type = ''text'', block_text = JSON_stringify posts 2\<rparr>],
            isError = None\<rparr>, w')
      | (Inl error, w') \<Rightarrow>
          (\<lparr>content = [\<lparr>block_type = ''text'',
                         block_text = ''Error fetching hot posts: '' @ error_to_string error\<rparr>],
            isError = Some True\<rparr>, w'))"

definition get_new_posts ::
  "RedditAPIClient \<Rightarrow> backend \<Rightarrow> string \<Rightarrow> int option \<Rightarrow> world \<Rightarrow> tool_result \<times> world" where
  "get_new_posts redditClient be subreddit limit w =
     (case getNewPosts redditClient be subreddit (Some (default_param limit 25)) w of
        (Inr posts, w') \<Rightarrow>
          (\<lparr>content = [\<lparr>block_type = ''text'', block_text = JSON_stringify posts 2\<rparr>],
            isError = None\<rparr>, w')
      | (Inl error, w') \<Rightarrow>
          (\<lparr>content = [\<lparr>block_type = ''text'',
                         block_text = ''Error fetching new posts: '' @ error_to_string error\<rparr>],
            isError = Some True\<rparr>, w'))"

definition get_rising_posts ::
  "RedditAPIClient \<Rightarrow> backend \<Rightarrow> string \<Rightarrow> int option \<Rightarrow> world \<Rightarrow> tool_result \<times> world" where
  "get_rising_posts redditClient be subreddit limit w =
     (case getRisingPosts redditClient be subreddit (Some (default_param limit 25)) w of
        (Inr posts, w') \<Rightarrow>
          (\<lparr>content = [\<lparr>block_type = ''text'', block_text = JSON_stringify posts 2\<rparr>],
            isError = None\<rparr>, w')
      | (Inl error, w') \<Rightarrow>
          (\<lparr>content = [\<lparr>block_type = ''text'',
                         block_text = ''Error fetching rising posts: '' @ error_to_string error\<rparr>],
            isError = Some True\<rparr>, w'))"

subsection \<open>Registration and invocation\<close>

record config =
  REDDABLE_API_KEY :: string

text \<open>
  A tool call: the tool's name with its arguments, typed as the input schema declares
  them. An optional argument that the caller left out is \<open>None\<close>.
\<close>

datatype tool_call =
    Get_user_posts "string option" "int option"
  | Get_user_comments "string option" "int option"
  | Get_post_comments string "string option"
  | Hide_comment string
  | Reply_to_comment string string
  | Post_comment string string
  | Get_hot_posts string "int option"
  | Get_new_posts string "int option"
  | Get_rising_posts string "int option"

datatype zod_issue = Too_small | Too_big

text \<open>\<^verbatim>\<open>z.number().min(1).max(100).default(25)\<close>\<close>

definition limit_schema :: "int option \<Rightarrow> zod_issue + int" where
  "limit_schema x =
     (case x of
        None \<Rightarrow> Inr 25
      | Some n \<Rightarrow> if n < 1 then Inl Too_small else if 100 < n then Inl Too_big else Inr n)"

definition redditClient :: "config \<Rightarrow> RedditAPIClient" where
  "redditClient cfg = new_RedditAPIClient (REDDABLE_API_KEY cfg) ''https://reddable.vercel.app''"

text \<open>
  The server made by \<^verbatim>\<open>createServer\<close> answers a call by parsing the arguments with the
  tool's input schema and, when they are accepted, running the handler on the parsed
  arguments. A rejected call never reaches the handler.
\<close>

definition call_tool ::
  "config \<Rightarrow> backend \<Rightarrow> tool_call \<Rightarrow> world \<Rightarrow> (zod_issue + tool_result) \<times> world" where
  "call_tool cfg be call w =
     (case call of
        Get_user_posts username limit \<Rightarrow>
          (case limit_schema limit of
             Inl issue \<Rightarrow> (Inl issue, w)
           | Inr n \<Rightarrow> apfst Inr (get_user_posts (redditClient cfg) be username (Some n) w))
      | Get_user_comments username limit \<Rightarrow>
          (case limit_schema limit of
             Inl issue \<Rightarrow> (Inl issue, w)
           | Inr n \<Rightarrow> apfst Inr (get_user_comments (redditClient cfg) be username (Some n) w))
      | Get_post_comments postId subreddit \<Rightarrow>
          apfst Inr (get_post_comments (redditClient cfg) be postId subreddit w)
      | Hide_comment commentId \<Rightarrow>
          apfst Inr (hide_comment (redditClient cfg) be commentId w)
      | Reply_to_comment commentId text \<Rightarrow>
          apfst Inr (reply_to_comment (redditClient cfg) be commentId text w)
      | Post_comment postId text \<Rightarrow>
          apfst Inr (post_comment (redditClient cfg) be postId text w)
      | Get_hot_posts subreddit limit \<Rightarrow>
          (case limit_schema limit of
             Inl issue \<Rightarrow> (Inl issue, w)
           | Inr n \<Rightarrow> apfst Inr (get_hot_posts (redditClient cfg) be subreddit (Some n) w))
      | Get_new_posts subreddit limit \<Rightarrow>
          (case limit_schema limit of
             Inl issue \<Rightarrow> (Inl issue, w)
           | Inr n \<Rightarrow> apfst Inr (get_new_posts (redditClient cfg) be subreddit (Some n) w))
      | Get_rising_posts subreddit limit \<Rightarrow>
          (case limit_schema limit of
             Inl issue \<Rightarrow> (Inl issue, w)
           | Inr n \<Rightarrow> apfst Inr (get_rising_posts (redditClient cfg) be subreddit (Some n) w)))"

section \<open>What the properties are stated with\<close>

text \<open>
  The requests issued between two states of the world, and the limit a request carries: a
  query parameter of a GET, a property of the body of a POST.
\<close>

definition issued :: "world \<Rightarrow> world \<Rightarrow> request list" where
  "issued w w' = drop (length (sent w)) (sent w')"

definition request_limit :: "request \<Rightarrow> json option" where
  "request_limit r =
     (case req_method r of
        GET \<Rightarrow> map_of (req_params r) ''limit''
      | POST \<Rightarrow> (case req_data r of Some (JObj kvs) \<Rightarrow> map_of kvs ''limit'' | _ \<Rightarrow> None))"

text \<open>
  The outbound contract as the specification tabulates it (method, path, query or body
  per operation, the fixed base URL, the bearer credential), written independently of the
  handlers. The second header is the content type the client's constructor configures.
\<close>

fun spec_method :: "tool_call \<Rightarrow> http_method" where
  "spec_method (Get_user_posts username limit) = GET"
| "spec_method (Get_user_comments username limit) = GET"
| "spec_method (Get_post_comments postId subreddit) = GET"
| "spec_method (Hide_comment commentId) = POST"
| "spec_method (Reply_to_comment commentId text) = POST"
| "spec_method (Post_comment postId text) = POST"
| "spec_method (Get_hot_posts subreddit limit) = POST"
| "spec_method (Get_new_posts subreddit limit) = POST"
| "spec_method (Get_rising_posts subreddit limit) = POST"

fun spec_path :: "tool_call \<Rightarrow> string" where
  "spec_path (Get_user_posts username limit) = ''/api/reddit/mcp/user-posts''"
| "spec_path (Get_user_comments username limit) = ''/api/reddit/mcp/user-comments''"
| "spec_path (Get_post_comments postId subreddit) = ''/api/reddit/mcp/post-comments''"
| "spec_path (Hide_comment commentId) = ''/api/reddit/mcp/hide-comment''"
| "spec_path (Reply_to_comment commentId text) = ''/api/reddit/mcp/reply-comment''"
| "spec_path (Post_comment postId text) = ''/api/reddit/mcp/post-comment''"
| "spec_path (Get_hot_posts subreddit limit) = ''/api/reddit/mcp/hot-posts''"
| "spec_path (Get_new_posts subreddit limit) = ''/api/reddit/mcp/new-posts''"
| "spec_path (Get_rising_posts subreddit limit) = ''/api/reddit/mcp/rising-posts''"

definition spec_limit :: "int option \<Rightarrow> json" where
  "spec_limit limit = (case limit of None \<Rightarrow> JNum 25 | Some n \<Rightarrow> JNum n)"

definition spec_optional :: "string \<Rightarrow> string option \<Rightarrow> (string \<times> json) list" where
  "spec_optional k x = (case x of None \<Rightarrow> [] | Some s \<Rightarrow> [(k, JStr s)])"

fun spec_query :: "tool_call \<Rightarrow> (string \<times> json) list" where
  "spec_query (Get_user_posts username limit) =
     spec_optional ''username'' username @ [(''limit'', spec_limit limit)]"
| "spec_query (Get_user_comments username limit) =
     spec_optional ''username'' username @ [(''limit'', spec_limit limit)]"
| "spec_query (Get_post_comments postId subreddit) =
     [(''postId'', JStr postId)] @ spec_optional ''subreddit'' subreddit"
| "spec_query call = []"

fun spec_body :: "tool_call \<Rightarrow> json option" where
  "spec_body (Hide_comment commentId) = Some (JObj [(''commentId'', JStr commentId)])"
| "spec_body (Reply_to_comment commentId text) =
     Some (JObj [(''commentId'', JStr commentId), (''text'', JStr text)])"
| "spec_body (Post_comment postId text) =
     Some (JObj [(''postId'', JStr postId), (''text'', JStr text)])"
| "spec_body (Get_hot_posts subreddit limit) =
     Some (JObj [(''subreddit'', JStr subreddit), (''limit'', spec_limit limit)])"
| "spec_body (Get_new_posts subreddit limit) =
     Some (JObj [(''subreddit'', JStr subreddit), (''limit'', spec_limit limit)])"
| "spec_body (Get_rising_posts subreddit limit) =
     Some (JObj [(''subreddit'', JStr subreddit), (''limit'', spec_limit limit)])"
| "spec_body call = None"

definition spec_request :: "string \<Rightarrow> tool_call \<Rightarrow> request" where
  "spec_request key call =
     \<lparr>req_method = spec_method call,
      req_baseURL = ''https://reddable.vercel.app'',
      req_url = spec_path call,
      req_headers = [(''Authorization'', ''Bearer '' @ key), (''Content-Type'', ''application/json'')],
      req_params = spec_query call,
      req_data = spec_body call\<rparr>"

text \<open>
  The operations that return data, the three subreddit listings among them, and the
  phrase each handler's \<^verbatim>\<open>catch\<close> puts before the error.
\<close>

fun is_get :: "tool_call \<Rightarrow> bool" where
  "is_get (Get_user_posts username limit) = True"
| "is_get (Get_user_comments username limit) = True"
| "is_get (Get_post_comments postId subreddit) = True"
| "is_get (Get_hot_posts subreddit limit) = True"
| "is_get (Get_new_posts subreddit limit) = True"
| "is_get (Get_rising_posts subreddit limit) = True"
| "is_get call = False"

fun is_listing :: "tool_call \<Rightarrow> bool" where
  "is_listing (Get_hot_posts subreddit limit) = True"
| "is_listing (Get_new_posts subreddit limit) = True"
| "is_listing (Get_rising_posts subreddit limit) = True"
| "is_listing call = False"

fun failure_phrase :: "tool_call \<Rightarrow> string" where
  "failure_phrase (Get_user_posts username limit) = ''Error fetching user posts: ''"
| "failure_phrase (Get_user_comments username limit) = ''Error fetching user comments: ''"
| "failure_phrase (Get_post_comments postId subreddit) = ''Error fetching post comments: ''"
| "failure_phrase (Hide_comment commentId) = ''Error hiding comment: ''"
| "failure_phrase (Reply_to_comment commentId text) = ''Error replying to comment: ''"
| "failure_phrase (Post_comment postId text) = ''Error posting comment: ''"
| "failure_phrase (Get_hot_posts subreddit limit) = ''Error fetching hot posts: ''"
| "failure_phrase (Get_new_posts subreddit limit) = ''Error fetching new posts: ''"
| "failure_phrase (Get_rising_posts subreddit limit) = ''Error fetching rising posts: ''"

text \<open>A result with a single text block.\<close>

definition text_result :: "string \<Rightarrow> bool option \<Rightarrow> tool_result" where
  "text_result s flag = \<lparr>content = [\<lparr>block_type = ''text'', block_text = s\<rparr>], isError = flag\<rparr>"

text \<open>Concrete backends, a configuration and a world for the examples.\<close>

definition backend_returning :: "nat \<Rightarrow> json \<Rightarrow> backend" where
  "backend_returning status body req = Responded status body"

definition backend_unreachable :: "js_error \<Rightarrow> backend" where
  "backend_unreachable e req = NoResponse e"

definition fresh_world :: world where
  "fresh_world = \<lparr>sent = [], console = []\<rparr>"

definition test_config :: config where
  "test_config = \<lparr>REDDABLE_API_KEY = ''secret''\<rparr>"


definition connection_refused :: js_error where
  "connection_refused = JsError ''Error'' ''connect ECONNREFUSED 127.0.0.1:443''"

text \<open>
  A post as the interface \<^verbatim>\<open>RedditPost\<close> of the source declares it (the field names carry
  a prefix here), the JSON object the backend sends for it, with the properties in the
  interface's order, and the posts whose numbers are JavaScript numbers.
\<close>

record RedditPost =
  post_id :: string
  post_title :: string
  post_selftext :: string
  post_author :: string
  post_subreddit :: string
  post_created_utc :: int
  post_score :: int
  post_num_comments :: int
  post_permalink :: string
  post_url :: string

definition post_json :: "RedditPost \<Rightarrow> json" where
  "post_json p =
     JObj [(''id'', JStr (post_id p)), (''title'', JStr (post_title p)),
           (''selftext'', JStr (post_selftext p)), (''author'', JStr (post_author p)),
           (''subreddit'', JStr (post_subreddit p)), (''created_utc'', JNum (post_created_utc p)),
           (''score'', JNum (post_score p)), (''num_comments'', JNum (post_num_comments p)),
           (''permalink'', JStr (post_permalink p)), (''url'', JStr (post_url p))]"

definition safe_post :: "RedditPost \<Rightarrow> bool" where
  "safe_post p =
     (safe_integer (post_created_utc p) \<and> safe_integer (post_score p)
      \<and> safe_integer (post_num_comments p))"

text \<open>
  What the specification's pretty-printed JSON of a post is, as an element of the outer
  array: the braces two spaces in, one property on each line four spaces in, the name in
  double quotes, a colon and a space, then the value (a string quoted with its escapes,
  a number in decimal), and a comma behind every property but the last.
\<close>

definition pretty_post :: "RedditPost \<Rightarrow> string" where
  "pretty_post p =
     ''  {'' @ [CHR 0x0A]
     @ ''    '' @ [CHR 0x22] @ ''id'' @ [CHR 0x22] @ '': '' @ quote (post_id p) @ '','' @ [CHR 0x0A]
     @ ''    '' @ [CHR 0x22] @ ''title'' @ [CHR 0x22] @ '': '' @ quote (post_title p) @ '','' @ [CHR 0x0A]
     @ ''    '' @ [CHR 0x22] @ ''selftext'' @ [CHR 0x22] @ '': '' @ quote (post_selftext p) @ '','' @ [CHR 0x0A]
     @ ''    '' @ [CHR 0x22] @ ''author'' @ [CHR 0x22] @ '': '' @ quote (post_author p) @ '','' @ [CHR 0x0A]
     @ ''    '' @ [CHR 0x22] @ ''subreddit'' @ [CHR 0x22] @ '': '' @ quote (post_subreddit p) @ '','' @ [CHR 0x0A]
     @ ''    '' @ [CHR 0x22] @ ''created_utc'' @ [CHR 0x22] @ '': '' @ number_to_string (post_created_utc p) @ '','' @ [CHR 0x0A]
     @ ''    '' @ [CHR 0x22] @ ''score'' @ [CHR 0x22] @ '': '' @ number_to_string (post_score p) @ '','' @ [CHR 0x0A]
     @ ''    '' @ [CHR 0x22] @ ''num_comments'' @ [CHR 0x22] @ '': '' @ number_to_string (post_num_comments p) @ '','' @ [CHR 0x0A]
     @ ''    '' @ [CHR 0x22] @ ''permalink'' @ [CHR 0x22] @ '': '' @ quote (post_permalink p) @ '','' @ [CHR 0x0A]
     @ ''    '' @ [CHR 0x22] @ ''url'' @ [CHR 0x22] @ '': '' @ quote (post_url p) @ [CHR 0x0A]
     @ ''  }''"

definition post_one :: RedditPost where
  "post_one =
     \<lparr>post_id = ''p1'', post_title = ''Hello'', post_selftext = [],
      post_author = ''alice'', post_subreddit = ''programming'',
      post_created_utc = 1700000000, post_score = 3, post_num_comments = 0,
      post_permalink = ''/r/programming/x'', post_url = ''https://example.org''\<rparr>"

definition post_two :: RedditPost where
  "post_two =
     \<lparr>post_id = ''p2'', post_title = ''She said '' @ [CHR 0x22] @ ''hi'' @ [CHR 0x22] @ [CHR 0x0A], post_selftext = [],
      post_author = ''alice'', post_subreddit = ''programming'',
      post_created_utc = 1700000000, post_score = 0, post_num_comments = 0,
      post_permalink = ''/r/programming/x'', post_url = ''https://example.org''\<rparr>"

definition post_three :: RedditPost where
  "post_three =
     \<lparr>post_id = ''p3'', post_title = ''back'' @ [CHR 0x5C] @ ''slash'', post_selftext = [],
      post_author = ''alice'', post_subreddit = ''programming'',
      post_created_utc = 1700000000, post_score = - 2, post_num_comments = 0,
      post_permalink = ''/r/programming/x'', post_url = ''https://example.org''\<rparr>"

text \<open>
  The arguments that the input schema of a tool accepts: a limit may be left out, and a
  given limit lies between 1 and 100; the string arguments are strings by their type.
\<close>

fun limit_accepted :: "int option \<Rightarrow> bool" where
  "limit_accepted None = True"
| "limit_accepted (Some n) = (1 \<le> n \<and> n \<le> 100)"

fun schema_accepts :: "tool_call \<Rightarrow> bool" where
  "schema_accepts (Get_user_posts username limit) = limit_accepted limit"
| "schema_accepts (Get_user_comments username limit) = limit_accepted limit"
| "schema_accepts (Get_post_comments postId subreddit) = True"
| "schema_accepts (Hide_comment commentId) = True"
| "schema_accepts (Reply_to_comment commentId text) = True"
| "schema_accepts (Post_comment postId text) = True"
| "schema_accepts (Get_hot_posts subreddit limit) = limit_accepted limit"
| "schema_accepts (Get_new_posts subreddit limit) = limit_accepted limit"
| "schema_accepts (Get_rising_posts subreddit limit) = limit_accepted limit"

section \<open>The requests a call issues\<close>

lemmas client_defs =
  getUserPosts_def getUserComments_def getPostComments_def hideComment_def
  replyToComment_def postComment_def getHotPosts_def getNewPosts_def getRisingPosts_def
  axios_get_def axios_post_def axios_request_def redditClient_def new_RedditAPIClient_def
  axios_create_def default_param_def console_error_def

lemmas handler_defs =
  get_user_posts_def get_user_comments_def get_post_comments_def hide_comment_def
  reply_to_comment_def post_comment_def get_hot_posts_def get_new_posts_def
  get_rising_posts_def

lemmas spec_defs = spec_request_def spec_limit_def spec_optional_def


text \<open>An accepted call issues one request, the one of the contract.\<close>

lemma sent_call_tool:
  assumes "fst (call_tool cfg be call w) = Inr res"
  shows "sent (snd (call_tool cfg be call w)) = sent w @ [spec_request (REDDABLE_API_KEY cfg) call]"
  using assms
  by (cases call)
     (auto simp: call_tool_def limit_schema_def handler_defs client_defs spec_defs
           split: sum.splits option.splits if_splits)

lemma issued_call_tool:
  assumes "fst (call_tool cfg be call w) = Inr res"
  shows "issued w (snd (call_tool cfg be call w)) = [spec_request (REDDABLE_API_KEY cfg) call]"
  by (simp add: issued_def sent_call_tool [OF assms])

text \<open>A call that the input schema rejects issues nothing.\<close>

lemma rejected_call_tool:
  assumes "fst (call_tool cfg be call w) = Inl issue"
  shows "snd (call_tool cfg be call w) = w"
  using assms
  by (cases call) (auto simp: call_tool_def split: sum.splits)

lemma get_failure_result:
  assumes "is_get call"
    and "fst (call_tool cfg be call w) = Inr res"
    and "settle (be (spec_request (REDDABLE_API_KEY cfg) call)) = Inl e"
  shows "res = text_result (failure_phrase call @ error_to_string e) (Some True)"
  using assms
  by (cases call)
     (auto simp: call_tool_def limit_schema_def handler_defs client_defs spec_defs text_result_def
           split: sum.splits option.splits if_splits)

text \<open>A call with arguments that the input schema accepts reaches its handler.\<close>

lemma schema_accepts_call:
  assumes "schema_accepts call"
  shows "\<exists>res. fst (call_tool cfg be call w) = Inr res"
proof (cases call)
  case (Get_user_posts u lim)
  with assms show ?thesis by (cases lim) (simp_all add: call_tool_def limit_schema_def)
next
  case (Get_user_comments u lim)
  with assms show ?thesis by (cases lim) (simp_all add: call_tool_def limit_schema_def)
next
  case (Get_hot_posts s lim)
  with assms show ?thesis by (cases lim) (simp_all add: call_tool_def limit_schema_def)
next
  case (Get_new_posts s lim)
  with assms show ?thesis by (cases lim) (simp_all add: call_tool_def limit_schema_def)
next
  case (Get_rising_posts s lim)
  with assms show ?thesis by (cases lim) (simp_all add: call_tool_def limit_schema_def)
qed (simp_all add: call_tool_def)

lemma accepted_calls:
  assumes "limit_schema lim = Inr m"
  shows "\<exists>res. fst (call_tool cfg be (Get_user_posts u lim) w) = Inr res"
    and "\<exists>res. fst (call_tool cfg be (Get_user_comments u lim) w) = Inr res"
    and "\<exists>res. fst (call_tool cfg be (Get_hot_posts s lim) w) = Inr res"
    and "\<exists>res. fst (call_tool cfg be (Get_new_posts s lim) w) = Inr res"
    and "\<exists>res. fst (call_tool cfg be (Get_rising_posts s lim) w) = Inr res"
  by (simp_all add: call_tool_def assms)

lemma accepted_calls_unlimited:
  shows "\<exists>res. fst (call_tool cfg be (Get_post_comments p sr) w) = Inr res"
    and "\<exists>res. fst (call_tool cfg be (Hide_comment c) w) = Inr res"
    and "\<exists>res. fst (call_tool cfg be (Reply_to_comment c t) w) = Inr res"
    and "\<exists>res. fst (call_tool cfg be (Post_comment p t) w) = Inr res"
  by (simp_all add: call_tool_def)

lemma limit_schema_cases:
  "limit_schema None = Inr 25"
  "1 \<le> n \<Longrightarrow> n \<le> 100 \<Longrightarrow> limit_schema (Some n) = Inr n"
  by (simp_all add: limit_schema_def)

lemma limit_carried:
  assumes "\<exists>res. fst (call_tool cfg be call w) = Inr res"
  shows "map request_limit (issued w (snd (call_tool cfg be call w)))
         = [request_limit (spec_request (REDDABLE_API_KEY cfg) call)]"
  using assms issued_call_tool by fastforce

lemma request_limit_spec:
  "request_limit (spec_request key (Get_user_posts u lim)) = Some (spec_limit lim)"
  "request_limit (spec_request key (Get_user_comments u lim)) = Some (spec_limit lim)"
  "request_limit (spec_request key (Get_hot_posts s lim)) = Some (spec_limit lim)"
  "request_limit (spec_request key (Get_new_posts s lim)) = Some (spec_limit lim)"
  "request_limit (spec_request key (Get_rising_posts s lim)) = Some (spec_limit lim)"
  by (cases u; simp add: request_limit_def spec_request_def spec_optional_def)+

section \<open>The result of a call\<close>

lemma settle_ok:
  "200 \<le> st \<Longrightarrow> st < 300 \<Longrightarrow> settle (Responded st body) = Inr \<lparr>resp_status = st, resp_data = body\<rparr>"
  by (simp add: settle_def)

lemma decimal_500: "decimal 500 = ''500''"
  by code_simp

lemma settle_500:
  "settle (Responded 500 body) = Inl (JsError ''AxiosError'' ''Request failed with status code 500'')"
  by (simp add: settle_def decimal_500)

lemma get_user_posts_result:
  "limit_schema lim = Inr n \<Longrightarrow>
   fst (call_tool cfg be (Get_user_posts u lim) w) =
     Inr (case settle (be (spec_request (REDDABLE_API_KEY cfg) (Get_user_posts u (Some n)))) of
            Inr r \<Rightarrow> text_result (JSON_stringify (resp_data r) 2) None
          | Inl e \<Rightarrow> text_result (''Error fetching user posts: '' @ error_to_string e) (Some True))"
  by (cases u)
     (simp_all add: call_tool_def get_user_posts_def client_defs spec_defs text_result_def
           split: sum.splits)

lemma hide_comment_result:
  "fst (call_tool cfg be (Hide_comment cid) w) =
     Inr (case settle (be (spec_request (REDDABLE_API_KEY cfg) (Hide_comment cid))) of
            Inr r \<Rightarrow> text_result (''Successfully hid comment '' @ cid) (Some False)
          | Inl e \<Rightarrow> text_result (''Failed to hide comment '' @ cid) (Some True))"
  by (simp add: call_tool_def hide_comment_def client_defs spec_defs text_result_def
           split: sum.splits)

lemma reply_to_comment_result:
  "fst (call_tool cfg be (Reply_to_comment cid msg) w) =
     Inr (case settle (be (spec_request (REDDABLE_API_KEY cfg) (Reply_to_comment cid msg))) of
            Inr r \<Rightarrow>
              (case get_prop (resp_data r) ''replyId'' of
                 Inr (Some v) \<Rightarrow>
                   if truthy v
                   then text_result (''Successfully replied to comment '' @ cid
                                      @ ''. Reply ID: '' @ to_string v) (Some False)
                   else text_result (''Failed to reply to comment '' @ cid) (Some True)
               | _ \<Rightarrow> text_result (''Failed to reply to comment '' @ cid) (Some True))
          | Inl e \<Rightarrow> text_result (''Failed to reply to comment '' @ cid) (Some True))"
  by (simp add: call_tool_def reply_to_comment_def client_defs spec_defs text_result_def
           split: sum.splits option.splits)

lemma post_comment_result:
  "fst (call_tool cfg be (Post_comment pid msg) w) =
     Inr (case settle (be (spec_request (REDDABLE_API_KEY cfg) (Post_comment pid msg))) of
            Inr r \<Rightarrow>
              (case get_prop (resp_data r) ''commentId'' of
                 Inr (Some v) \<Rightarrow>
                   if truthy v
                   then text_result (''Successfully posted comment on post '' @ pid
                                      @ ''. Comment ID: '' @ to_string v) (Some False)
                   else text_result (''Failed to post comment on post '' @ pid) (Some True)
               | _ \<Rightarrow> text_result (''Failed to post comment on post '' @ pid) (Some True))
          | Inl e \<Rightarrow> text_result (''Failed to post comment on post '' @ pid) (Some True))"
  by (simp add: call_tool_def post_comment_def client_defs spec_defs text_result_def
           split: sum.splits option.splits)

lemma listing_result:
  assumes "is_listing call"
    and "fst (call_tool cfg be call w) = Inr res"
    and "settle (be (spec_request (REDDABLE_API_KEY cfg) call)) = Inr r"
    and "get_prop (resp_data r) ''posts'' = Inr v"
  shows "res = text_result (JSON_stringify (js_or v (JArr [])) 2) None"
  using assms
  by (cases call)
     (auto simp: call_tool_def limit_schema_def handler_defs client_defs spec_defs text_result_def
           split: sum.splits option.splits if_splits)

lemma client_never_raises:
  "\<exists>b. fst (hideComment c be x w) = Inr b"
  "\<exists>v. fst (replyToComment c be x t w) = Inr v"
  "\<exists>v. fst (postComment c be x t w) = Inr v"
  by (auto simp: client_defs split: sum.splits prod.splits)

lemma client_sentinel:
  "settle (be (spec_request (REDDABLE_API_KEY cfg) (Hide_comment cid))) = Inl e \<Longrightarrow>
     fst (hideComment (redditClient cfg) be cid w) = Inr False"
  "settle (be (spec_request (REDDABLE_API_KEY cfg) (Reply_to_comment cid msg))) = Inl e \<Longrightarrow>
     fst (replyToComment (redditClient cfg) be cid msg w) = Inr JNull"
  "settle (be (spec_request (REDDABLE_API_KEY cfg) (Post_comment pid msg))) = Inl e \<Longrightarrow>
     fst (postComment (redditClient cfg) be pid msg w) = Inr JNull"
  by (simp_all add: client_defs spec_defs)

text \<open>The pretty-printer on a small value: one element on each line, nested by two spaces.\<close>

lemma JSON_stringify_sample:
  "JSON_stringify (JArr [JObj [(''id'', JStr ''p1''), (''score'', JNum 3)], JArr [], JNum (- 2)]) 2
   = join [CHR 0x0A]
       [''['',
        ''  {'',
        ''    '' @ [CHR 0x22] @ ''id'' @ [CHR 0x22] @ '': '' @ [CHR 0x22] @ ''p1'' @ [CHR 0x22] @ '','',
        ''    '' @ [CHR 0x22] @ ''score'' @ [CHR 0x22] @ '': 3'',
        ''  },'',
        ''  [],'',
        ''  -2'',
        '']'']"
  by code_simp

text \<open>The three sample posts, printed.\<close>

lemma digit_chars:
  "digit_char 0 = CHR ''0''" "digit_char 1 = CHR ''1''" "digit_char 2 = CHR ''2''"
  "digit_char 3 = CHR ''3''" "digit_char 4 = CHR ''4''" "digit_char 5 = CHR ''5''"
  "digit_char 6 = CHR ''6''" "digit_char 7 = CHR ''7''" "digit_char 8 = CHR ''8''"
  "digit_char 9 = CHR ''9''" "digit_char (Suc 0) = CHR ''1''"
  by code_simp+

lemma sample_numbers:
  "number_to_string 1700000000 = ''1700000000''" "number_to_string 0 = ''0''"
  "number_to_string 3 = ''3''" "number_to_string (- 2) = ''-2''"
  by (simp_all add: number_to_string_def decimal.simps digit_chars)

lemma pretty_post_one:
  "pretty_post post_one
   = ''  {''
     @ [CHR 0x0A] @ ''    '' @ [CHR 0x22] @ ''id'' @ [CHR 0x22] @ '': '' @ [CHR 0x22] @ ''p1'' @ [CHR 0x22] @ '',''
     @ [CHR 0x0A] @ ''    '' @ [CHR 0x22] @ ''title'' @ [CHR 0x22] @ '': '' @ [CHR 0x22] @ ''Hello'' @ [CHR 0x22] @ '',''
     @ [CHR 0x0A] @ ''    '' @ [CHR 0x22] @ ''selftext'' @ [CHR 0x22] @ '': '' @ [CHR 0x22] @ [CHR 0x22] @ '',''
     @ [CHR 0x0A] @ ''    '' @ [CHR 0x22] @ ''author'' @ [CHR 0x22] @ '': '' @ [CHR 0x22] @ ''alice'' @ [CHR 0x22] @ '',''
     @ [CHR 0x0A] @ ''    '' @ [CHR 0x22] @ ''subreddit'' @ [CHR 0x22] @ '': '' @ [CHR 0x22] @ ''programming'' @ [CHR 0x22] @ '',''
     @ [CHR 0x0A] @ ''    '' @ [CHR 0x22] @ ''created_utc'' @ [CHR 0x22] @ '': 1700000000,''
     @ [CHR 0x0A] @ ''    '' @ [CHR 0x22] @ ''score'' @ [CHR 0x22] @ '': 3,''
     @ [CHR 0x0A] @ ''    '' @ [CHR 0x22] @ ''num_comments'' @ [CHR 0x22] @ '': 0,''
     @ [CHR 0x0A] @ ''    '' @ [CHR 0x22] @ ''permalink'' @ [CHR 0x22] @ '': '' @ [CHR 0x22] @ ''/r/programming/x'' @ [CHR 0x22] @ '',''
     @ [CHR 0x0A] @ ''    '' @ [CHR 0x22] @ ''url'' @ [CHR 0x22] @ '': '' @ [CHR 0x22] @ ''https://example.org'' @ [CHR 0x22]
     @ [CHR 0x0A] @ ''  }''"
  by (simp add: pretty_post_def post_one_def quote_def quote_char_def sample_numbers)

lemma pretty_post_two:
  "pretty_post post_two
   = ''  {''
     @ [CHR 0x0A] @ ''    '' @ [CHR 0x22] @ ''id'' @ [CHR 0x22] @ '': '' @ [CHR 0x22] @ ''p2'' @ [CHR 0x22] @ '',''
     @ [CHR 0x0A] @ ''    '' @ [CHR 0x22] @ ''title'' @ [CHR 0x22] @ '': '' @ [CHR 0x22] @ ''She said '' @ [CHR 0x5C] @ [CHR 0x22] @ ''hi'' @ [CHR 0x5C] @ [CHR 0x22] @ [CHR 0x5C] @ ''n'' @ [CHR 0x22] @ '',''
     @ [CHR 0x0A] @ ''    '' @ [CHR 0x22] @ ''selftext'' @ [CHR 0x22] @ '': '' @ [CHR 0x22] @ [CHR 0x22] @ '',''
     @ [CHR 0x0A] @ ''    '' @ [CHR 0x22] @ ''author'' @ [CHR 0x22] @ '': '' @ [CHR 0x22] @ ''alice'' @ [CHR 0x22] @ '',''
     @ [CHR 0x0A] @ ''    '' @ [CHR 0x22] @ ''subreddit'' @ [CHR 0x22] @ '': '' @ [CHR 0x22] @ ''programming'' @ [CHR 0x22] @ '',''
     @ [CHR 0x0A] @ ''    '' @ [CHR 0x22] @ ''created_utc'' @ [CHR 0x22] @ '': 1700000000,''
     @ [CHR 0x0A] @ ''    '' @ [CHR 0x22] @ ''score'' @ [CHR 0x22] @ '': 0,''
     @ [CHR 0x0A] @ ''    '' @ [CHR 0x22] @ ''num_comments'' @ [CHR 0x22] @ '': 0,''
     @ [CHR 0x0A] @ ''    '' @ [CHR 0x22] @ ''permalink'' @ [CHR 0x22] @ '': '' @ [CHR 0x22] @ ''/r/programming/x'' @ [CHR 0x22] @ '',''
     @ [CHR 0x0A] @ ''    '' @ [CHR 0x22] @ ''url'' @ [CHR 0x22] @ '': '' @ [CHR 0x22] @ ''https://example.org'' @ [CHR 0x22]
     @ [CHR 0x0A] @ ''  }''"
  by (simp add: pretty_post_def post_two_def quote_def quote_char_def sample_numbers)

lemma pretty_post_three:
  "pretty_post post_three
   = ''  {''
     @ [CHR 0x0A] @ ''    '' @ [CHR 0x22] @ ''id'' @ [CHR 0x22] @ '': '' @ [CHR 0x22] @ ''p3'' @ [CHR 0x22] @ '',''
     @ [CHR 0x0A] @ ''    '' @ [CHR 0x22] @ ''title'' @ [CHR 0x22] @ '': '' @ [CHR 0x22] @ ''back'' @ [CHR 0x5C] @ [CHR 0x5C] @ ''slash'' @ [CHR 0x22] @ '',''
     @ [CHR 0x0A] @ ''    '' @ [CHR 0x22] @ ''selftext'' @ [CHR 0x22] @ '': '' @ [CHR 0x22] @ [CHR 0x22] @ '',''
     @ [CHR 0x0A] @ ''    '' @ [CHR 0x22] @ ''author'' @ [CHR 0x22] @ '': '' @ [CHR 0x22] @ ''alice'' @ [CHR 0x22] @ '',''
     @ [CHR 0x0A] @ ''    '' @ [CHR 0x22] @ ''subreddit'' @ [CHR 0x22] @ '': '' @ [CHR 0x22] @ ''programming'' @ [CHR 0x22] @ '',''
     @ [CHR 0x0A] @ ''    '' @ [CHR 0x22] @ ''created_utc'' @ [CHR 0x22] @ '': 1700000000,''
     @ [CHR 0x0A] @ ''    '' @ [CHR 0x22] @ ''score'' @ [CHR 0x22] @ '': -2,''
     @ [CHR 0x0A] @ ''    '' @ [CHR 0x22] @ ''num_comments'' @ [CHR 0x22] @ '': 0,''
     @ [CHR 0x0A] @ ''    '' @ [CHR 0x22] @ ''permalink'' @ [CHR 0x22] @ '': '' @ [CHR 0x22] @ ''/r/programming/x'' @ [CHR 0x22] @ '',''
     @ [CHR 0x0A] @ ''    '' @ [CHR 0x22] @ ''url'' @ [CHR 0x22] @ '': '' @ [CHR 0x22] @ ''https://example.org'' @ [CHR 0x22]
     @ [CHR 0x0A] @ ''  }''"
  by (simp add: pretty_post_def post_three_def quote_def quote_char_def sample_numbers)

section \<open>The limit\<close>

text \<open>
  C1: each of the five operations that take a limit, called with a limit between 1 and
  100, issues one request and that request carries exactly this limit; called without a
  limit, the request carries 25.
\<close>

theorem limit_forwarded:
  "(1 \<le> n \<and> n \<le> 100 \<longrightarrow>
      map request_limit (issued w (snd (call_tool cfg be (Get_user_posts u (Some n)) w))) = [Some (JNum n)]
    \<and> map request_limit (issued w (snd (call_tool cfg be (Get_user_comments u (Some n)) w))) = [Some (JNum n)]
    \<and> map request_limit (issued w (snd (call_tool cfg be (Get_hot_posts s (Some n)) w))) = [Some (JNum n)]
    \<and> map request_limit (issued w (snd (call_tool cfg be (Get_new_posts s (Some n)) w))) = [Some (JNum n)]
    \<and> map request_limit (issued w (snd (call_tool cfg be (Get_rising_posts s (Some n)) w))) = [Some (JNum n)])
   \<and> map request_limit (issued w (snd (call_tool cfg be (Get_user_posts u None) w))) = [Some (JNum 25)]
   \<and> map request_limit (issued w (snd (call_tool cfg be (Get_user_comments u None) w))) = [Some (JNum 25)]
   \<and> map request_limit (issued w (snd (call_tool cfg be (Get_hot_posts s None) w))) = [Some (JNum 25)]
   \<and> map request_limit (issued w (snd (call_tool cfg be (Get_new_posts s None) w))) = [Some (JNum 25)]
   \<and> map request_limit (issued w (snd (call_tool cfg be (Get_rising_posts s None) w))) = [Some (JNum 25)]"
proof -
  have given: "map request_limit (issued w (snd (call_tool cfg be (Get_user_posts u (Some n)) w))) = [Some (JNum n)]
    \<and> map request_limit (issued w (snd (call_tool cfg be (Get_user_comments u (Some n)) w))) = [Some (JNum n)]
    \<and> map request_limit (issued w (snd (call_tool cfg be (Get_hot_posts s (Some n)) w))) = [Some (JNum n)]
    \<and> map request_limit (issued w (snd (call_tool cfg be (Get_new_posts s (Some n)) w))) = [Some (JNum n)]
    \<and> map request_limit (issued w (snd (call_tool cfg be (Get_rising_posts s (Some n)) w))) = [Some (JNum n)]"
    if "1 \<le> n" "n \<le> 100"
    using accepted_calls [OF limit_schema_cases(2) [OF that], of cfg be _ w]
    by (simp add: limit_carried request_limit_spec spec_limit_def)
  have omitted: "map request_limit (issued w (snd (call_tool cfg be (Get_user_posts u None) w))) = [Some (JNum 25)]
   \<and> map request_limit (issued w (snd (call_tool cfg be (Get_user_comments u None) w))) = [Some (JNum 25)]
   \<and> map request_limit (issued w (snd (call_tool cfg be (Get_hot_posts s None) w))) = [Some (JNum 25)]
   \<and> map request_limit (issued w (snd (call_tool cfg be (Get_new_posts s None) w))) = [Some (JNum 25)]
   \<and> map request_limit (issued w (snd (call_tool cfg be (Get_rising_posts s None) w))) = [Some (JNum 25)]"
    using accepted_calls [OF limit_schema_cases(1), of cfg be _ w]
    by (simp add: limit_carried request_limit_spec spec_limit_def)
  from given omitted show ?thesis by blast
qed

theorem limit_forwarded_witness:
  "(1::int) \<le> 10 \<and> (10::int) \<le> 100
   \<and> map request_limit (issued fresh_world (snd (call_tool test_config
         (backend_returning 200 (JArr [])) (Get_user_posts (Some ''alice'') (Some 10))
         fresh_world))) = [Some (JNum 10)]
   \<and> map request_limit (issued fresh_world (snd (call_tool test_config
         (backend_returning 200 (JArr [])) (Get_rising_posts ''programming'' (Some 10))
         fresh_world))) = [Some (JNum 10)]
   \<and> map request_limit (issued fresh_world (snd (call_tool test_config
         (backend_returning 200 (JArr [])) (Get_user_posts (Some ''alice'') None)
         fresh_world))) = [Some (JNum 25)]"
  using limit_forwarded [of 10 fresh_world test_config "backend_returning 200 (JArr [])"
                            "Some ''alice''" "''programming''"]
  by simp

section \<open>Failures of the operations that return data\<close>

text \<open>
  C2: when the outbound request of one of the six data operations fails (no response, or
  a status outside 200..299, which the HTTP client throws), the result of the tool is an
  error result (\<open>isError\<close> is true) whose text is the operation's failure phrase
  followed by the error as a string; and the call issued that one request only, so
  nothing was tried again.
\<close>

theorem get_failure_surfaces:
  assumes "is_get call"
    and "fst (call_tool cfg be call w) = Inr res"
    and "settle (be (spec_request (REDDABLE_API_KEY cfg) call)) = Inl e"
  shows "res = text_result (failure_phrase call @ error_to_string e) (Some True)
         \<and> issued w (snd (call_tool cfg be call w)) = [spec_request (REDDABLE_API_KEY cfg) call]"
  using get_failure_result [OF assms] issued_call_tool [OF assms(2)] by simp

theorem get_failure_surfaces_witness:
  "is_get (Get_post_comments ''p1'' None)
   \<and> fst (call_tool test_config (backend_unreachable connection_refused)
            (Get_post_comments ''p1'' None) fresh_world)
       = Inr (text_result ''Error fetching post comments: Error: connect ECONNREFUSED 127.0.0.1:443''
                (Some True))
   \<and> settle (backend_unreachable connection_refused
               (spec_request (REDDABLE_API_KEY test_config) (Get_post_comments ''p1'' None)))
       = Inl connection_refused
   \<and> issued fresh_world (snd (call_tool test_config (backend_unreachable connection_refused)
            (Get_post_comments ''p1'' None) fresh_world))
       = [spec_request (REDDABLE_API_KEY test_config) (Get_post_comments ''p1'' None)]"
proof -
  have run: "fst (call_tool test_config (backend_unreachable connection_refused)
                   (Get_post_comments ''p1'' None) fresh_world)
             = Inr (text_result ''Error fetching post comments: Error: connect ECONNREFUSED 127.0.0.1:443''
                      (Some True))"
    by (simp add: call_tool_def get_post_comments_def client_defs backend_unreachable_def
          settle_def connection_refused_def error_to_string_def text_result_def)
  have failed: "settle (backend_unreachable connection_refused
               (spec_request (REDDABLE_API_KEY test_config) (Get_post_comments ''p1'' None)))
       = Inl connection_refused"
    by (simp add: backend_unreachable_def settle_def)
  have "is_get (Get_post_comments ''p1'' None)" by simp
  from get_failure_surfaces [OF this run failed] run failed show ?thesis by simp
qed

section \<open>Failures of the operations that change something\<close>

text \<open>
  C3: the client methods \<open>hideComment\<close>, \<open>replyToComment\<close> and \<open>postComment\<close> never
  raise, whatever the backend does. When the outbound request fails they return the
  negative sentinel (false, respectively null), and the tool turns it into an error result
  whose text is the fixed sentence with the caller's id: the same text for every error,
  so nothing of the exception reaches the caller.
\<close>

theorem mutation_failure_swallowed:
  "(\<exists>b. fst (hideComment c be' x w') = Inr b)
   \<and> (\<exists>v. fst (replyToComment c be' x t w') = Inr v)
   \<and> (\<exists>v. fst (postComment c be' x t w') = Inr v)
   \<and> (settle (be (spec_request (REDDABLE_API_KEY cfg) (Hide_comment cid))) = Inl e \<longrightarrow>
        fst (hideComment (redditClient cfg) be cid w) = Inr False
        \<and> fst (call_tool cfg be (Hide_comment cid) w)
            = Inr (text_result (''Failed to hide comment '' @ cid) (Some True)))
   \<and> (settle (be (spec_request (REDDABLE_API_KEY cfg) (Reply_to_comment cid msg))) = Inl e \<longrightarrow>
        fst (replyToComment (redditClient cfg) be cid msg w) = Inr JNull
        \<and> fst (call_tool cfg be (Reply_to_comment cid msg) w)
            = Inr (text_result (''Failed to reply to comment '' @ cid) (Some True)))
   \<and> (settle (be (spec_request (REDDABLE_API_KEY cfg) (Post_comment pid msg))) = Inl e \<longrightarrow>
        fst (postComment (redditClient cfg) be pid msg w) = Inr JNull
        \<and> fst (call_tool cfg be (Post_comment pid msg) w)
            = Inr (text_result (''Failed to post comment on post '' @ pid) (Some True)))"
  by (simp add: client_never_raises client_sentinel hide_comment_result
        reply_to_comment_result post_comment_result)

theorem mutation_failure_swallowed_witness:
  "settle (backend_unreachable connection_refused
            (spec_request (REDDABLE_API_KEY test_config) (Hide_comment ''abc123'')))
     = Inl connection_refused
   \<and> fst (hideComment (redditClient test_config) (backend_unreachable connection_refused)
            ''abc123'' fresh_world) = Inr False
   \<and> fst (call_tool test_config (backend_unreachable connection_refused)
            (Hide_comment ''abc123'') fresh_world)
       = Inr (text_result ''Failed to hide comment abc123'' (Some True))
   \<and> settle (backend_returning 503 JNull
            (spec_request (REDDABLE_API_KEY test_config) (Reply_to_comment ''c1'' ''hello'')))
     = Inl (JsError ''AxiosError'' ''Request failed with status code 503'')
   \<and> fst (call_tool test_config (backend_returning 503 JNull)
            (Reply_to_comment ''c1'' ''hello'') fresh_world)
       = Inr (text_result ''Failed to reply to comment c1'' (Some True))
   \<and> fst (call_tool test_config (backend_returning 503 JNull)
            (Post_comment ''p1'' ''hello'') fresh_world)
       = Inr (text_result ''Failed to post comment on post p1'' (Some True))"
proof -
  have digits: "decimal 503 = ''503''"
    by code_simp
  have refused: "settle (backend_unreachable connection_refused r) = Inl connection_refused" for r
    by (simp add: backend_unreachable_def settle_def)
  have unavailable: "settle (backend_returning 503 JNull r)
                     = Inl (JsError ''AxiosError'' ''Request failed with status code 503'')" for r
    by (simp add: backend_returning_def settle_def digits)
  show ?thesis
    using mutation_failure_swallowed [where cfg = test_config and cid = "''abc123''"
            and be = "backend_unreachable connection_refused" and e = connection_refused
            and w = fresh_world]
          mutation_failure_swallowed [where cfg = test_config and cid = "''c1''"
            and msg = "''hello''" and pid = "''p1''" and be = "backend_returning 503 JNull"
            and e = "JsError ''AxiosError'' ''Request failed with status code 503''"
            and w = fresh_world]
    by (simp add: refused unavailable)
qed

text \<open>
  C4: \<open>hide_comment\<close> of \<open>abc123\<close> against a backend that answers 200 gives the text
  \<open>Successfully hid comment abc123\<close> with \<open>isError\<close> false; against a backend that
  answers 500 it gives \<open>Failed to hide comment abc123\<close> with \<open>isError\<close> true, whatever
  the body of the answer, and neither the error the HTTP client threw nor its message
  occurs in that text.
\<close>

theorem hide_comment_abc123:
  "(be (spec_request (REDDABLE_API_KEY cfg) (Hide_comment ''abc123'')) = Responded 200 body \<longrightarrow>
      fst (call_tool cfg be (Hide_comment ''abc123'') w)
        = Inr (text_result ''Successfully hid comment abc123'' (Some False)))
   \<and> (be (spec_request (REDDABLE_API_KEY cfg) (Hide_comment ''abc123'')) = Responded 500 body \<longrightarrow>
      fst (call_tool cfg be (Hide_comment ''abc123'') w)
        = Inr (text_result ''Failed to hide comment abc123'' (Some True))
      \<and> settle (Responded 500 body)
          = Inl (JsError ''AxiosError'' ''Request failed with status code 500'')
      \<and> \<not> sublist (error_to_string (JsError ''AxiosError'' ''Request failed with status code 500''))
            ''Failed to hide comment abc123''
      \<and> \<not> sublist ''Request failed with status code 500'' ''Failed to hide comment abc123'')"
proof -
  have no_detail:
    "\<not> sublist (error_to_string (JsError ''AxiosError'' ''Request failed with status code 500''))
         ''Failed to hide comment abc123''"
    "\<not> sublist ''Request failed with status code 500'' ''Failed to hide comment abc123''"
    by (simp_all add: error_to_string_def sublist_Cons_right)
  show ?thesis
    by (simp add: hide_comment_result settle_500 settle_ok no_detail)
qed

theorem hide_comment_abc123_witness:
  "backend_returning 200 (JObj []) (spec_request (REDDABLE_API_KEY test_config) (Hide_comment ''abc123''))
     = Responded 200 (JObj [])
   \<and> fst (call_tool test_config (backend_returning 200 (JObj [])) (Hide_comment ''abc123'') fresh_world)
       = Inr (text_result ''Successfully hid comment abc123'' (Some False))
   \<and> backend_returning 500 (JObj [(''error'', JStr ''Internal Server Error'')])
         (spec_request (REDDABLE_API_KEY test_config) (Hide_comment ''abc123''))
     = Responded 500 (JObj [(''error'', JStr ''Internal Server Error'')])
   \<and> fst (call_tool test_config (backend_returning 500 (JObj [(''error'', JStr ''Internal Server Error'')]))
            (Hide_comment ''abc123'') fresh_world)
       = Inr (text_result ''Failed to hide comment abc123'' (Some True))"
  using hide_comment_abc123 [where cfg = test_config and be = "backend_returning 200 (JObj [])"
          and body = "JObj []" and w = fresh_world]
        hide_comment_abc123 [where cfg = test_config
          and be = "backend_returning 500 (JObj [(''error'', JStr ''Internal Server Error'')])"
          and body = "JObj [(''error'', JStr ''Internal Server Error'')]" and w = fresh_world]
  by (simp add: backend_returning_def)

section \<open>The outbound contract\<close>

text \<open>
  C5, as the code has it: every call whose arguments the input schema accepts (a limit
  left out or between 1 and 100) reaches its operation and issues exactly one request,
  and it is the request of the contract: sent to the fixed base URL, with the method and
  the path of the operation (GET with query parameters for \<open>user-posts\<close>,
  \<open>user-comments\<close> and \<open>post-comments\<close>; POST with a JSON body for the other six), and
  with the header \<open>Authorization: Bearer key\<close> made from the configuration's credential.
\<close>

theorem outbound_contract:
  assumes "schema_accepts call"
  shows "(\<exists>res. fst (call_tool cfg be call w) = Inr res)
         \<and> issued w (snd (call_tool cfg be call w)) = [spec_request (REDDABLE_API_KEY cfg) call]
         \<and> req_baseURL (spec_request (REDDABLE_API_KEY cfg) call) = ''https://reddable.vercel.app''
         \<and> req_method (spec_request (REDDABLE_API_KEY cfg) call) = spec_method call
         \<and> req_url (spec_request (REDDABLE_API_KEY cfg) call) = spec_path call
         \<and> req_params (spec_request (REDDABLE_API_KEY cfg) call) = spec_query call
         \<and> req_data (spec_request (REDDABLE_API_KEY cfg) call) = spec_body call
         \<and> map_of (req_headers (spec_request (REDDABLE_API_KEY cfg) call)) ''Authorization''
             = Some (''Bearer '' @ REDDABLE_API_KEY cfg)"
proof -
  from schema_accepts_call [OF assms]
  obtain res where "fst (call_tool cfg be call w) = Inr res"
    by blast
  from this issued_call_tool [OF this] show ?thesis
    by (simp add: spec_request_def)
qed

theorem outbound_contract_witness:
  "schema_accepts (Get_hot_posts ''programming'' (Some 5))
   \<and> fst (call_tool test_config (backend_returning 200 (JObj [(''posts'', JArr [])]))
          (Get_hot_posts ''programming'' (Some 5)) fresh_world)
       = Inr \<lparr>content = [\<lparr>block_type = ''text'', block_text = ''[]''\<rparr>], isError = None\<rparr>
   \<and> issued fresh_world (snd (call_tool test_config
          (backend_returning 200 (JObj [(''posts'', JArr [])]))
          (Get_hot_posts ''programming'' (Some 5)) fresh_world))
       = [\<lparr>req_method = POST, req_baseURL = ''https://reddable.vercel.app'',
           req_url = ''/api/reddit/mcp/hot-posts'',
           req_headers = [(''Authorization'', ''Bearer secret''),
                          (''Content-Type'', ''application/json'')],
           req_params = [],
           req_data = Some (JObj [(''subreddit'', JStr ''programming''), (''limit'', JNum 5)])\<rparr>]
   \<and> schema_accepts (Get_post_comments ''p1'' None)
   \<and> issued fresh_world (snd (call_tool test_config (backend_unreachable connection_refused)
          (Get_post_comments ''p1'' None) fresh_world))
       = [\<lparr>req_method = GET, req_baseURL = ''https://reddable.vercel.app'',
           req_url = ''/api/reddit/mcp/post-comments'',
           req_headers = [(''Authorization'', ''Bearer secret''),
                          (''Content-Type'', ''application/json'')],
           req_params = [(''postId'', JStr ''p1'')],
           req_data = None\<rparr>]"
proof -
  have hot: "schema_accepts (Get_hot_posts ''programming'' (Some 5))"
    by simp
  have comments: "schema_accepts (Get_post_comments ''p1'' None)"
    by simp
  have run: "fst (call_tool test_config (backend_returning 200 (JObj [(''posts'', JArr [])]))
          (Get_hot_posts ''programming'' (Some 5)) fresh_world)
       = Inr \<lparr>content = [\<lparr>block_type = ''text'', block_text = ''[]''\<rparr>], isError = None\<rparr>"
    by (simp add: call_tool_def limit_schema_def get_hot_posts_def client_defs
          backend_returning_def settle_def JSON_stringify_def)
  from outbound_contract [OF hot, of test_config "backend_returning 200 (JObj [(''posts'', JArr [])])"
         fresh_world]
       outbound_contract [OF comments, of test_config "backend_unreachable connection_refused"
         fresh_world]
       run
  show ?thesis
    by (simp add: spec_request_def test_config_def spec_limit_def spec_optional_def)
qed

text \<open>
  The claim as it was stated, for every invocation, fails for a limit outside 1..100: the
  input schema rejects the call before the handler runs, and no request goes out.
\<close>

theorem rejected_limit_counterexample:
  "fst (call_tool test_config (backend_returning 200 (JArr []))
          (Get_user_posts (Some ''alice'') (Some 0)) fresh_world) = Inl Too_small
   \<and> issued fresh_world (snd (call_tool test_config (backend_returning 200 (JArr []))
          (Get_user_posts (Some ''alice'') (Some 0)) fresh_world)) = []"
  by (simp add: call_tool_def limit_schema_def issued_def)

section \<open>Successful calls\<close>

text \<open>
  C6: \<open>get_user_posts\<close> for \<open>alice\<close> with limit 10, against a backend that answers
  successfully with a list of three posts (their numbers being JavaScript numbers), gives
  a result without \<open>isError\<close> whose single text block is exactly the pretty-printed JSON
  of that array with an indentation of two: an opening bracket, the three posts each
  printed as \<open>pretty_post\<close> says, commas between them, and the closing bracket on the
  last line. The example spells the text out for three posts, one of them with a double
  quote and a line break in its title, one with a backslash and a negative score.
\<close>

theorem get_user_posts_alice:
  assumes "be (spec_request (REDDABLE_API_KEY cfg) (Get_user_posts (Some ''alice'') (Some 10)))
           = Responded st (JArr [post_json r1, post_json r2, post_json r3])"
    and "200 \<le> st" and "st < 300"
    and "safe_post r1" and "safe_post r2" and "safe_post r3"
  shows "fst (call_tool cfg be (Get_user_posts (Some ''alice'') (Some 10)) w)
           = Inr \<lparr>content =
                     [\<lparr>block_type = ''text'',
                       block_text = ''['' @ [CHR 0x0A] @ pretty_post r1
                                    @ '','' @ [CHR 0x0A] @ pretty_post r2
                                    @ '','' @ [CHR 0x0A] @ pretty_post r3
                                    @ [CHR 0x0A] @ '']''\<rparr>],
                   isError = None\<rparr>"
proof -
  have gap: "replicate (min 10 2) CHR '' '' = ''  ''"
    by (simp add: numeral_2_eq_2)
  have element: "''  '' @ serialize ''  '' ''  '' (post_json r) = pretty_post r" for r
    by (simp add: post_json_def pretty_post_def quote_def quote_char_def)
  have layout: "JSON_stringify (JArr [post_json r1, post_json r2, post_json r3]) 2
           = ''['' @ [CHR 0x0A] @ (''  '' @ serialize ''  '' ''  '' (post_json r1))
             @ '','' @ [CHR 0x0A] @ (''  '' @ serialize ''  '' ''  '' (post_json r2))
             @ '','' @ [CHR 0x0A] @ (''  '' @ serialize ''  '' ''  '' (post_json r3))
             @ [CHR 0x0A] @ '']''"
    unfolding JSON_stringify_def gap by simp
  have "limit_schema (Some 10) = Inr 10"
    by (simp add: limit_schema_def)
  from get_user_posts_result [OF this, of cfg be "Some ''alice''" w]
  have "fst (call_tool cfg be (Get_user_posts (Some ''alice'') (Some 10)) w)
        = Inr (text_result (JSON_stringify (JArr [post_json r1, post_json r2, post_json r3]) 2) None)"
    by (simp add: assms settle_ok)
  then show ?thesis
    unfolding layout element by (simp add: text_result_def)
qed

theorem get_user_posts_alice_witness:
  "backend_returning 200 (JArr [post_json post_one, post_json post_two, post_json post_three])
      (spec_request (REDDABLE_API_KEY test_config) (Get_user_posts (Some ''alice'') (Some 10)))
     = Responded 200 (JArr [post_json post_one, post_json post_two, post_json post_three])
   \<and> (200::nat) \<le> 200 \<and> (200::nat) < 300
   \<and> safe_post post_one \<and> safe_post post_two \<and> safe_post post_three
   \<and> fst (call_tool test_config
            (backend_returning 200 (JArr [post_json post_one, post_json post_two, post_json post_three]))
            (Get_user_posts (Some ''alice'') (Some 10)) fresh_world)
       = Inr \<lparr>content =
                 [\<lparr>block_type = ''text'',
                   block_text =
                  ''[''
                  @ [CHR 0x0A] @ ''  {''
                  @ [CHR 0x0A] @ ''    '' @ [CHR 0x22] @ ''id'' @ [CHR 0x22] @ '': '' @ [CHR 0x22] @ ''p1'' @ [CHR 0x22] @ '',''
                  @ [CHR 0x0A] @ ''    '' @ [CHR 0x22] @ ''title'' @ [CHR 0x22] @ '': '' @ [CHR 0x22] @ ''Hello'' @ [CHR 0x22] @ '',''
                  @ [CHR 0x0A] @ ''    '' @ [CHR 0x22] @ ''selftext'' @ [CHR 0x22] @ '': '' @ [CHR 0x22] @ [CHR 0x22] @ '',''
                  @ [CHR 0x0A] @ ''    '' @ [CHR 0x22] @ ''author'' @ [CHR 0x22] @ '': '' @ [CHR 0x22] @ ''alice'' @ [CHR 0x22] @ '',''
                  @ [CHR 0x0A] @ ''    '' @ [CHR 0x22] @ ''subreddit'' @ [CHR 0x22] @ '': '' @ [CHR 0x22] @ ''programming'' @ [CHR 0x22] @ '',''
                  @ [CHR 0x0A] @ ''    '' @ [CHR 0x22] @ ''created_utc'' @ [CHR 0x22] @ '': 1700000000,''
                  @ [CHR 0x0A] @ ''    '' @ [CHR 0x22] @ ''score'' @ [CHR 0x22] @ '': 3,''
                  @ [CHR 0x0A] @ ''    '' @ [CHR 0x22] @ ''num_comments'' @ [CHR 0x22] @ '': 0,''
                  @ [CHR 0x0A] @ ''    '' @ [CHR 0x22] @ ''permalink'' @ [CHR 0x22] @ '': '' @ [CHR 0x22] @ ''/r/programming/x'' @ [CHR 0x22] @ '',''
                  @ [CHR 0x0A] @ ''    '' @ [CHR 0x22] @ ''url'' @ [CHR 0x22] @ '': '' @ [CHR 0x22] @ ''https://example.org'' @ [CHR 0x22]
                  @ [CHR 0x0A] @ ''  },''
                  @ [CHR 0x0A] @ ''  {''
                  @ [CHR 0x0A] @ ''    '' @ [CHR 0x22] @ ''id'' @ [CHR 0x22] @ '': '' @ [CHR 0x22] @ ''p2'' @ [CHR 0x22] @ '',''
                  @ [CHR 0x0A] @ ''    '' @ [CHR 0x22] @ ''title'' @ [CHR 0x22] @ '': '' @ [CHR 0x22] @ ''She said '' @ [CHR 0x5C] @ [CHR 0x22] @ ''hi'' @ [CHR 0x5C] @ [CHR 0x22] @ [CHR 0x5C] @ ''n'' @ [CHR 0x22] @ '',''
                  @ [CHR 0x0A] @ ''    '' @ [CHR 0x22] @ ''selftext'' @ [CHR 0x22] @ '': '' @ [CHR 0x22] @ [CHR 0x22] @ '',''
                  @ [CHR 0x0A] @ ''    '' @ [CHR 0x22] @ ''author'' @ [CHR 0x22] @ '': '' @ [CHR 0x22] @ ''alice'' @ [CHR 0x22] @ '',''
                  @ [CHR 0x0A] @ ''    '' @ [CHR 0x22] @ ''subreddit'' @ [CHR 0x22] @ '': '' @ [CHR 0x22] @ ''programming'' @ [CHR 0x22] @ '',''
                  @ [CHR 0x0A] @ ''    '' @ [CHR 0x22] @ ''created_utc'' @ [CHR 0x22] @ '': 1700000000,''
                  @ [CHR 0x0A] @ ''    '' @ [CHR 0x22] @ ''score'' @ [CHR 0x22] @ '': 0,''
                  @ [CHR 0x0A] @ ''    '' @ [CHR 0x22] @ ''num_comments'' @ [CHR 0x22] @ '': 0,''
                  @ [CHR 0x0A] @ ''    '' @ [CHR 0x22] @ ''permalink'' @ [CHR 0x22] @ '': '' @ [CHR 0x22] @ ''/r/programming/x'' @ [CHR 0x22] @ '',''
                  @ [CHR 0x0A] @ ''    '' @ [CHR 0x22] @ ''url'' @ [CHR 0x22] @ '': '' @ [CHR 0x22] @ ''https://example.org'' @ [CHR 0x22]
                  @ [CHR 0x0A] @ ''  },''
                  @ [CHR 0x0A] @ ''  {''
                  @ [CHR 0x0A] @ ''    '' @ [CHR 0x22] @ ''id'' @ [CHR 0x22] @ '': '' @ [CHR 0x22] @ ''p3'' @ [CHR 0x22] @ '',''
                  @ [CHR 0x0A] @ ''    '' @ [CHR 0x22] @ ''title'' @ [CHR 0x22] @ '': '' @ [CHR 0x22] @ ''back'' @ [CHR 0x5C] @ [CHR 0x5C] @ ''slash'' @ [CHR 0x22] @ '',''
                  @ [CHR 0x0A] @ ''    '' @ [CHR 0x22] @ ''selftext'' @ [CHR 0x22] @ '': '' @ [CHR 0x22] @ [CHR 0x22] @ '',''
                  @ [CHR 0x0A] @ ''    '' @ [CHR 0x22] @ ''author'' @ [CHR 0x22] @ '': '' @ [CHR 0x22] @ ''alice'' @ [CHR 0x22] @ '',''
                  @ [CHR 0x0A] @ ''    '' @ [CHR 0x22] @ ''subreddit'' @ [CHR 0x22] @ '': '' @ [CHR 0x22] @ ''programming'' @ [CHR 0x22] @ '',''
                  @ [CHR 0x0A] @ ''    '' @ [CHR 0x22] @ ''created_utc'' @ [CHR 0x22] @ '': 1700000000,''
                  @ [CHR 0x0A] @ ''    '' @ [CHR 0x22] @ ''score'' @ [CHR 0x22] @ '': -2,''
                  @ [CHR 0x0A] @ ''    '' @ [CHR 0x22] @ ''num_comments'' @ [CHR 0x22] @ '': 0,''
                  @ [CHR 0x0A] @ ''    '' @ [CHR 0x22] @ ''permalink'' @ [CHR 0x22] @ '': '' @ [CHR 0x22] @ ''/r/programming/x'' @ [CHR 0x22] @ '',''
                  @ [CHR 0x0A] @ ''    '' @ [CHR 0x22] @ ''url'' @ [CHR 0x22] @ '': '' @ [CHR 0x22] @ ''https://example.org'' @ [CHR 0x22]
                  @ [CHR 0x0A] @ ''  }''
                  @ [CHR 0x0A] @ '']''\<rparr>],
               isError = None\<rparr>"
proof -
  have answer: "backend_returning 200 (JArr [post_json post_one, post_json post_two, post_json post_three])
      (spec_request (REDDABLE_API_KEY test_config) (Get_user_posts (Some ''alice'') (Some 10)))
     = Responded 200 (JArr [post_json post_one, post_json post_two, post_json post_three])"
    by (simp add: backend_returning_def)
  have safe: "safe_post post_one" "safe_post post_two" "safe_post post_three"
    by (simp_all add: safe_post_def safe_integer_def post_one_def post_two_def post_three_def)
  have "fst (call_tool test_config
            (backend_returning 200 (JArr [post_json post_one, post_json post_two, post_json post_three]))
            (Get_user_posts (Some ''alice'') (Some 10)) fresh_world)
       = Inr \<lparr>content =
                 [\<lparr>block_type = ''text'',
                   block_text = ''['' @ [CHR 0x0A] @ pretty_post post_one
                                @ '','' @ [CHR 0x0A] @ pretty_post post_two
                                @ '','' @ [CHR 0x0A] @ pretty_post post_three
                                @ [CHR 0x0A] @ '']''\<rparr>],
               isError = None\<rparr>"
    by (rule get_user_posts_alice
          [where cfg = test_config and w = fresh_world and st = 200
             and be = "backend_returning 200
                         (JArr [post_json post_one, post_json post_two, post_json post_three])",
           OF answer _ _ safe])
       simp_all
  with answer safe show ?thesis
    by (simp add: pretty_post_one pretty_post_two pretty_post_three)
qed

text \<open>
  C7: \<open>reply_to_comment\<close> on \<open>c1\<close> with the text \<open>hello\<close>, against a backend that
  answers successfully with the body \<open>{replyId: "r9"}\<close>, gives a result with \<open>isError\<close>
  false whose text contains both \<open>c1\<close> and \<open>r9\<close>.
\<close>

theorem reply_to_comment_c1:
  assumes "be (spec_request (REDDABLE_API_KEY cfg) (Reply_to_comment ''c1'' ''hello''))
           = Responded st (JObj [(''replyId'', JStr ''r9'')])"
    and "200 \<le> st" and "st < 300"
  shows "fst (call_tool cfg be (Reply_to_comment ''c1'' ''hello'') w)
           = Inr (text_result ''Successfully replied to comment c1. Reply ID: r9'' (Some False))
         \<and> sublist ''c1'' ''Successfully replied to comment c1. Reply ID: r9''
         \<and> sublist ''r9'' ''Successfully replied to comment c1. Reply ID: r9''"
proof -
  have "sublist ''c1'' (''Successfully replied to comment '' @ ''c1'' @ ''. Reply ID: r9'')"
    by (rule sublist_appendI)
  moreover have "sublist ''r9'' (''Successfully replied to comment c1. Reply ID: '' @ ''r9'' @ [])"
    by (rule sublist_appendI)
  ultimately show ?thesis
    by (simp add: reply_to_comment_result assms settle_ok)
qed

theorem reply_to_comment_c1_witness:
  "backend_returning 201 (JObj [(''replyId'', JStr ''r9'')])
      (spec_request (REDDABLE_API_KEY test_config) (Reply_to_comment ''c1'' ''hello''))
     = Responded 201 (JObj [(''replyId'', JStr ''r9'')])
   \<and> (200::nat) \<le> 201 \<and> (201::nat) < 300
   \<and> fst (call_tool test_config (backend_returning 201 (JObj [(''replyId'', JStr ''r9'')]))
            (Reply_to_comment ''c1'' ''hello'') fresh_world)
       = Inr (text_result ''Successfully replied to comment c1. Reply ID: r9'' (Some False))"
proof -
  have answer: "backend_returning 201 (JObj [(''replyId'', JStr ''r9'')])
      (spec_request (REDDABLE_API_KEY test_config) (Reply_to_comment ''c1'' ''hello''))
     = Responded 201 (JObj [(''replyId'', JStr ''r9'')])"
    by (simp add: backend_returning_def)
  from reply_to_comment_c1
         [where cfg = test_config and w = fresh_world and st = 201
            and be = "backend_returning 201 (JObj [(''replyId'', JStr ''r9'')])",
          OF answer]
       answer
  show ?thesis
    by simp
qed

text \<open>
  C8: \<open>get_hot_posts\<close> for \<open>programming\<close> with limit 5, against a backend that
  answers successfully with the body \<open>{posts: []}\<close>, gives a result without \<open>isError\<close>
  whose text is the serialization of the empty array, \<open>[]\<close>: an empty list is a success.
\<close>

theorem get_hot_posts_empty:
  assumes "be (spec_request (REDDABLE_API_KEY cfg) (Get_hot_posts ''programming'' (Some 5)))
           = Responded st (JObj [(''posts'', JArr [])])"
    and "200 \<le> st" and "st < 300"
  shows "fst (call_tool cfg be (Get_hot_posts ''programming'' (Some 5)) w)
           = Inr \<lparr>content = [\<lparr>block_type = ''text'', block_text = ''[]''\<rparr>], isError = None\<rparr>
         \<and> JSON_stringify (JArr []) 2 = ''[]''"
proof -
  have empty: "JSON_stringify (JArr []) 2 = ''[]''"
    by (simp add: JSON_stringify_def)
  have accepted: "fst (call_tool cfg be (Get_hot_posts ''programming'' (Some 5)) w)
                  = Inr (fst (get_hot_posts (redditClient cfg) be ''programming'' (Some 5) w))"
    by (simp add: call_tool_def limit_schema_def)
  have settled: "settle (be (spec_request (REDDABLE_API_KEY cfg) (Get_hot_posts ''programming'' (Some 5))))
                 = Inr \<lparr>resp_status = st, resp_data = JObj [(''posts'', JArr [])]\<rparr>"
    by (simp add: assms settle_ok)
  have "get_prop (resp_data \<lparr>resp_status = st, resp_data = JObj [(''posts'', JArr [])]\<rparr>) ''posts''
        = Inr (Some (JArr []))"
    by simp
  from listing_result [OF _ accepted settled this]
  show ?thesis
    using accepted by (simp add: empty text_result_def)
qed

theorem get_hot_posts_empty_witness:
  "backend_returning 200 (JObj [(''posts'', JArr [])])
      (spec_request (REDDABLE_API_KEY test_config) (Get_hot_posts ''programming'' (Some 5)))
     = Responded 200 (JObj [(''posts'', JArr [])])
   \<and> (200::nat) \<le> 200 \<and> (200::nat) < 300
   \<and> fst (call_tool test_config (backend_returning 200 (JObj [(''posts'', JArr [])]))
            (Get_hot_posts ''programming'' (Some 5)) fresh_world)
       = Inr \<lparr>content = [\<lparr>block_type = ''text'', block_text = ''[]''\<rparr>], isError = None\<rparr>"
proof -
  have answer: "backend_returning 200 (JObj [(''posts'', JArr [])])
      (spec_request (REDDABLE_API_KEY test_config) (Get_hot_posts ''programming'' (Some 5)))
     = Responded 200 (JObj [(''posts'', JArr [])])"
    by (simp add: backend_returning_def)
  from get_hot_posts_empty
         [where cfg = test_config and w = fresh_world and st = 200
            and be = "backend_returning 200 (JObj [(''posts'', JArr [])])",
          OF answer]
       answer
  show ?thesis
    by simp
qed

section \<open>Answers without the expected field\<close>

text \<open>
  C9, as the code has it: for \<open>get_hot_posts\<close>, \<open>get_new_posts\<close> and
  \<open>get_rising_posts\<close>, a successful answer whose body is not \<open>null\<close> and has no \<open>posts\<close>
  property, or a falsy one, gives a result without \<open>isError\<close> whose text is the
  serialization of the empty list.
\<close>

theorem listing_without_posts:
  assumes "is_listing call"
    and "fst (call_tool cfg be call w) = Inr res"
    and "be (spec_request (REDDABLE_API_KEY cfg) call) = Responded st body"
    and "200 \<le> st" and "st < 300"
    and "body \<noteq> JNull"
    and "\<forall>v. get_prop body ''posts'' = Inr (Some v) \<longrightarrow> \<not> truthy v"
  shows "res = \<lparr>content = [\<lparr>block_type = ''text'', block_text = ''[]''\<rparr>], isError = None\<rparr>"
proof -
  have settled: "settle (be (spec_request (REDDABLE_API_KEY cfg) call))
                 = Inr \<lparr>resp_status = st, resp_data = body\<rparr>"
    by (simp add: assms settle_ok)
  from \<open>body \<noteq> JNull\<close> obtain v where read: "get_prop body ''posts'' = Inr v"
    by (cases body) simp_all
  with assms(7) have "js_or v (JArr []) = JArr []"
    by (cases v) simp_all
  moreover have "get_prop (resp_data \<lparr>resp_status = st, resp_data = body\<rparr>) ''posts'' = Inr v"
    using read by simp
  ultimately show ?thesis
    using listing_result [OF assms(1,2) settled]
    by (simp add: JSON_stringify_def text_result_def)
qed

theorem listing_without_posts_witness:
  "is_listing (Get_new_posts ''programming'' None)
   \<and> fst (call_tool test_config (backend_returning 200 (JObj [(''posts'', JNull)]))
            (Get_new_posts ''programming'' None) fresh_world)
       = Inr \<lparr>content = [\<lparr>block_type = ''text'', block_text = ''[]''\<rparr>], isError = None\<rparr>
   \<and> backend_returning 200 (JObj [(''posts'', JNull)])
        (spec_request (REDDABLE_API_KEY test_config) (Get_new_posts ''programming'' None))
       = Responded 200 (JObj [(''posts'', JNull)])
   \<and> (200::nat) \<le> 200 \<and> (200::nat) < 300
   \<and> JObj [(''posts'', JNull)] \<noteq> JNull
   \<and> get_prop (JObj [(''posts'', JNull)]) ''posts'' = Inr (Some JNull)
   \<and> \<not> truthy JNull"
proof -
  have listing: "is_listing (Get_new_posts ''programming'' None)"
    by simp
  have run: "fst (call_tool test_config (backend_returning 200 (JObj [(''posts'', JNull)]))
            (Get_new_posts ''programming'' None) fresh_world)
       = Inr \<lparr>content = [\<lparr>block_type = ''text'', block_text = ''[]''\<rparr>], isError = None\<rparr>"
    by (simp add: call_tool_def limit_schema_def get_new_posts_def client_defs
          backend_returning_def settle_def JSON_stringify_def)
  have answer: "backend_returning 200 (JObj [(''posts'', JNull)])
        (spec_request (REDDABLE_API_KEY test_config) (Get_new_posts ''programming'' None))
       = Responded 200 (JObj [(''posts'', JNull)])"
    by (simp add: backend_returning_def)
  have falsy: "\<forall>v. get_prop (JObj [(''posts'', JNull)]) ''posts'' = Inr (Some v) \<longrightarrow> \<not> truthy v"
    by simp
  from listing_without_posts
         [where cfg = test_config and w = fresh_world and st = 200
            and be = "backend_returning 200 (JObj [(''posts'', JNull)])",
          OF listing run answer _ _ _ falsy]
       listing run answer falsy
  show ?thesis
    by simp
qed

text \<open>
  The claim as it was stated, for every successful answer without a \<open>posts\<close> property,
  fails for the body \<open>null\<close>: reading \<open>posts\<close> of \<open>null\<close> throws inside the client's
  \<^verbatim>\<open>try\<close>, the error is thrown again, and the tool answers with an error result.
\<close>

theorem listing_null_body_counterexample:
  "fst (call_tool test_config (backend_returning 200 JNull)
          (Get_hot_posts ''programming'' (Some 5)) fresh_world)
     = Inr \<lparr>content = [\<lparr>block_type = ''text'',
                          block_text = ''Error fetching hot posts: TypeError: ''
                            @ ''Cannot read properties of null (reading ''
                            @ [CHR 0x27] @ ''posts'' @ [CHR 0x27] @ '')''\<rparr>],
             isError = Some True\<rparr>
   \<and> fst (call_tool test_config (backend_returning 200 JNull)
          (Get_hot_posts ''programming'' (Some 5)) fresh_world)
     \<noteq> Inr \<lparr>content = [\<lparr>block_type = ''text'', block_text = ''[]''\<rparr>], isError = None\<rparr>"
  by (simp add: call_tool_def limit_schema_def get_hot_posts_def client_defs
        backend_returning_def settle_def error_to_string_def)

text \<open>
  C10: for \<open>reply_to_comment\<close> and \<open>post_comment\<close>, a successful answer whose
  \<open>replyId\<close>, respectively \<open>commentId\<close>, is absent or falsy (\<open>null\<close> and the empty
  string are falsy) gives the error result with the sentence \<open>Failed to ...\<close>; so an
  empty-string id issued by the backend is reported as a failure.
\<close>

theorem falsy_id_reported_as_failure:
  "(be (spec_request (REDDABLE_API_KEY cfg) (Reply_to_comment cid msg)) = Responded st body
      \<and> 200 \<le> st \<and> st < 300
      \<and> (\<forall>v. get_prop body ''replyId'' = Inr (Some v) \<longrightarrow> \<not> truthy v)
    \<longrightarrow> fst (call_tool cfg be (Reply_to_comment cid msg) w)
          = Inr \<lparr>content = [\<lparr>block_type = ''text'',
                               block_text = ''Failed to reply to comment '' @ cid\<rparr>],
                  isError = Some True\<rparr>)
   \<and> (be (spec_request (REDDABLE_API_KEY cfg) (Post_comment pid msg)) = Responded st body
      \<and> 200 \<le> st \<and> st < 300
      \<and> (\<forall>v. get_prop body ''commentId'' = Inr (Some v) \<longrightarrow> \<not> truthy v)
    \<longrightarrow> fst (call_tool cfg be (Post_comment pid msg) w)
          = Inr \<lparr>content = [\<lparr>block_type = ''text'',
                               block_text = ''Failed to post comment on post '' @ pid\<rparr>],
                  isError = Some True\<rparr>)
   \<and> \<not> truthy JNull \<and> \<not> truthy (JStr [])"
  by (auto simp: reply_to_comment_result post_comment_result settle_ok text_result_def
        split: sum.splits option.splits)

theorem falsy_id_reported_as_failure_witness:
  "backend_returning 200 (JObj [(''replyId'', JStr [])])
      (spec_request (REDDABLE_API_KEY test_config) (Reply_to_comment ''c1'' ''hello''))
     = Responded 200 (JObj [(''replyId'', JStr [])])
   \<and> (200::nat) \<le> 200 \<and> (200::nat) < 300
   \<and> get_prop (JObj [(''replyId'', JStr [])]) ''replyId'' = Inr (Some (JStr []))
   \<and> \<not> truthy (JStr [])
   \<and> fst (call_tool test_config (backend_returning 200 (JObj [(''replyId'', JStr [])]))
            (Reply_to_comment ''c1'' ''hello'') fresh_world)
       = Inr \<lparr>content = [\<lparr>block_type = ''text'', block_text = ''Failed to reply to comment c1''\<rparr>],
               isError = Some True\<rparr>
   \<and> get_prop (JObj []) ''commentId'' = Inr None
   \<and> fst (call_tool test_config (backend_returning 200 (JObj []))
            (Post_comment ''p1'' ''hello'') fresh_world)
       = Inr \<lparr>content = [\<lparr>block_type = ''text'', block_text = ''Failed to post comment on post p1''\<rparr>],
               isError = Some True\<rparr>"
  using falsy_id_reported_as_failure
          [where cfg = test_config and w = fresh_world and st = 200 and cid = "''c1''"
             and msg = "''hello''" and body = "JObj [(''replyId'', JStr [])]"
             and be = "backend_returning 200 (JObj [(''replyId'', JStr [])])"]
        falsy_id_reported_as_failure
          [where cfg = test_config and w = fresh_world and st = 200 and pid = "''p1''"
             and msg = "''hello''" and body = "JObj []"
             and be = "backend_returning 200 (JObj [])"]
  by (simp add: backend_returning_def)

end
